theory Spec2Isabelle
  imports Main "HOL-Library.AList"
begin

section \<open>The BIG-IQ utility license assignment module\<close>

text \<open>
  A shallow embedding of \<^verbatim>\<open>plugins/modules/bigiq_utility_license_assignment.py\<close>.
  The module talks to a BIG-IQ over REST. Every call of the HTTP client is a step of the
  model: it appends the request to the log of requests and reads the next response of
  the device. A run is therefore a function of the module parameters and of the sequence
  of responses, and the theorems quantify over every such sequence.
\<close>

subsection \<open>Values\<close>

text \<open>Parsed JSON, as \<^verbatim>\<open>response['contents']\<close> holds it. Numbers are integers.\<close>

datatype json =
    JNull
  | JBool bool
  | JInt int
  | JStr string
  | JList "json list"
  | JObj "(string \<times> json) list"

text \<open>
  A Python string built by \<^verbatim>\<open>str.format\<close>: \<open>Format t args\<close> stands for
  \<^verbatim>\<open>t.format(*args)\<close>, \<open>Lit s\<close> for the string \<open>s\<close> and \<open>FJson j\<close> for a value
  read from a response (\<^verbatim>\<open>None\<close> is \<open>FJson JNull\<close>), which \<^verbatim>\<open>format\<close>
  renders with \<^verbatim>\<open>str\<close>. The rendering itself is left symbolic.
\<close>

datatype fmt =
    Lit string
  | FJson json
  | Format string "fmt list"

text \<open>The values of a request body.\<close>

datatype pyval =
    PNone
  | PBool bool
  | PInt int
  | PStr fmt
  | PJson json
  | PDict "(string \<times> pyval) list"

text \<open>
  The exceptions a run can raise: the module's own \<^verbatim>\<open>F5ModuleError\<close>, carrying a
  message or the raw contents of a response, and the exceptions of Python's subscript
  operator on a response that has not the expected shape.
\<close>

datatype error =
    F5ModuleError fmt
  | KeyError string
  | IndexError
  | TypeError

subsection \<open>Subscripts and comparisons of Python\<close>

text \<open>\<^verbatim>\<open>j[k]\<close> for a string key \<open>k\<close>.\<close>

fun getitem :: "json \<Rightarrow> string \<Rightarrow> error + json" where
  "getitem (JObj kvs) k = (case map_of kvs k of None \<Rightarrow> Inl (KeyError k) | Some v \<Rightarrow> Inr v)"
| "getitem (JStr s) k = Inl TypeError"
| "getitem (JList xs) k = Inl TypeError"
| "getitem JNull k = Inl TypeError"
| "getitem (JBool b) k = Inl TypeError"
| "getitem (JInt i) k = Inl TypeError"

text \<open>\<^verbatim>\<open>j[0]\<close>. The keys of a JSON object are strings, so \<open>0\<close> is never one of them.\<close>

fun getitem0 :: "json \<Rightarrow> error + json" where
  "getitem0 (JList []) = Inl IndexError"
| "getitem0 (JList (x # xs)) = Inr x"
| "getitem0 (JStr []) = Inl IndexError"
| "getitem0 (JStr (c # cs)) = Inr (JStr [c])"
| "getitem0 (JObj kvs) = Inl (KeyError ''0'')"
| "getitem0 JNull = Inl TypeError"
| "getitem0 (JBool b) = Inl TypeError"
| "getitem0 (JInt i) = Inl TypeError"

text \<open>\<^verbatim>\<open>j == 0\<close>: in Python \<^verbatim>\<open>False == 0\<close> holds.\<close>

fun eq_zero :: "json \<Rightarrow> bool" where
  "eq_zero (JInt i) = (i = 0)"
| "eq_zero (JBool b) = (\<not> b)"
| "eq_zero j = False"

text \<open>Truth value of an optional boolean parameter (\<^verbatim>\<open>None\<close> is falsy).\<close>

fun truthy :: "bool option \<Rightarrow> bool" where
  "truthy None = False"
| "truthy (Some b) = b"

subsection \<open>Requests, responses and the state of a run\<close>

datatype verb = GET | POST | DELETE

record request =
  verb :: verb
  uri :: fmt
  data :: "(string \<times> pyval) list option"

record response =
  code :: int
  contents :: json

text \<open>
  Modelled from the spec: the attribute map of a change set, which the base class
  \<^verbatim>\<open>AnsibleF5Parameters\<close> of \<^verbatim>\<open>module_utils/common.py\<close>, not among the sources of the
  module, keeps in \<^verbatim>\<open>self._values\<close>. A name that is absent reads as \<^verbatim>\<open>None\<close>, and a name
  for which the class of the object defines no property reads the stored value.
\<close>

record changes_values =
  v_device_address :: "string option"
  v_device_reference :: "fmt option"
  v_device_username :: "string option"
  v_device_password :: "string option"
  v_device_port :: "int option"
  v_managed :: "bool option"
  v_unit_of_measure :: "string option"

definition no_values :: changes_values where
  "no_values = \<lparr> v_device_address = None, v_device_reference = None,
     v_device_username = None, v_device_password = None, v_device_port = None,
     v_managed = None, v_unit_of_measure = None \<rparr>"

text \<open>\<^verbatim>\<open>self.changes\<close> is an instance of \<^verbatim>\<open>UsableChanges\<close> or of \<^verbatim>\<open>Changes\<close>.\<close>

datatype changes = UsableChanges changes_values | Changes changes_values

text \<open>
  The mutable state of a \<^verbatim>\<open>ModuleManager\<close>: the requests sent so far, oldest first,
  and \<^verbatim>\<open>self.changes\<close>.
\<close>

record manager =
  requests :: "request list"
  changes :: changes

text \<open>The module parameters (\<^verbatim>\<open>self.module.params\<close>, read through \<^verbatim>\<open>self.want\<close>).\<close>

record params =
  offering :: string
  unit_of_measure :: "string option"
  key :: string
  device :: string
  managed :: "bool option"
  device_port :: "int option"
  device_username :: "string option"
  device_password :: "string option"
  state :: string

text \<open>
  A computation of the module: from the state of the manager to a result or an
  exception, and the state then.
\<close>

type_synonym 'a io = "manager \<Rightarrow> (error + 'a) \<times> manager"

definition io_return :: "'a \<Rightarrow> 'a io" where
  "io_return x s = (Inr x, s)"

definition io_raise :: "error \<Rightarrow> 'a io" where
  "io_raise e s = (Inl e, s)"

definition io_bind :: "'a io \<Rightarrow> ('a \<Rightarrow> 'b io) \<Rightarrow> 'b io" where
  "io_bind m f s = (case m s of (Inl e, s') \<Rightarrow> (Inl e, s') | (Inr x, s') \<Rightarrow> f x s')"

definition io_lift :: "error + 'a \<Rightarrow> 'a io" where
  "io_lift r s = (r, s)"

text \<open>
  The HTTP client \<^verbatim>\<open>F5Client\<close> of \<^verbatim>\<open>module_utils/client.py\<close> and the device it talks to
  are not among the sources of the module: they are the parameter \<open>rs\<close>, the sequence
  of the responses that the calls of a run hand back, each with its code and its parsed
  contents. The \<open>n\<close>-th request of a run (counting from 0) is answered by the \<open>n\<close>-th
  response of the sequence, whatever the request.
\<close>

definition client_call ::
  "(nat \<Rightarrow> response) \<Rightarrow> verb \<Rightarrow> fmt \<Rightarrow> (string \<times> pyval) list option \<Rightarrow> response io" where
  "client_call rs m u d s =
     (Inr (rs (length (requests s))),
      s\<lparr>requests := requests s @ [\<lparr>verb = m, uri = u, data = d\<rparr>]\<rparr>)"

definition client_get :: "(nat \<Rightarrow> response) \<Rightarrow> fmt \<Rightarrow> response io" where
  "client_get rs u = client_call rs GET u None"

definition client_post :: "(nat \<Rightarrow> response) \<Rightarrow> fmt \<Rightarrow> (string \<times> pyval) list \<Rightarrow> response io" where
  "client_post rs u d = client_call rs POST u (Some d)"

definition client_delete :: "(nat \<Rightarrow> response) \<Rightarrow> fmt \<Rightarrow> (string \<times> pyval) list \<Rightarrow> response io" where
  "client_delete rs u d = client_call rs DELETE u (Some d)"

text \<open>\<^verbatim>\<open>response['code'] not in [200, 201, 202]\<close>\<close>

definition bad_code :: "response \<Rightarrow> bool" where
  "bad_code r = (code r \<notin> {200, 201, 202})"

text \<open>
  \<^verbatim>\<open>response['code'] == 200 and response['contents']['totalItems'] == 0\<close>: the
  contents are read only when the code is 200.
\<close>

definition no_items :: "response \<Rightarrow> error + bool" where
  "no_items r =
     (if code r = 200
      then (case getitem (contents r) ''totalItems'' of
              Inl e \<Rightarrow> Inl e
            | Inr n \<Rightarrow> Inr (eq_zero n))
      else Inr False)"

text \<open>\<^verbatim>\<open>response['contents']['items'][0][k]\<close>\<close>

definition first_item :: "response \<Rightarrow> string \<Rightarrow> error + json" where
  "first_item r k =
     (case getitem (contents r) ''items'' of
        Inl e \<Rightarrow> Inl e
      | Inr items \<Rightarrow>
          (case getitem0 items of
             Inl e \<Rightarrow> Inl e
           | Inr item \<Rightarrow> getitem item k))"

subsection \<open>ModuleParameters\<close>

text \<open>
  \<^verbatim>\<open>is_valid_ip\<close> comes from \<^verbatim>\<open>module_utils/ipaddress.py\<close>, which is not among the sources
  of the module: it is the parameter \<open>ip\<close> of everything below.
\<close>

definition device_is_address :: "(string \<Rightarrow> bool) \<Rightarrow> params \<Rightarrow> bool" where
  "device_is_address ip p = (if ip (device p) then True else False)"

text \<open>The character class \<^verbatim>\<open>[A-Za-z0-9]\<close>.\<close>

definition alnum :: "char \<Rightarrow> bool" where
  "alnum c =
     (let n = (of_char c :: nat)
      in (65 \<le> n \<and> n \<le> 90) \<or> (97 \<le> n \<and> n \<le> 122) \<or> (48 \<le> n \<and> n \<le> 57))"

text \<open>\<^verbatim>\<open>[A-Za-z0-9]{n}\<close> at the start of a string: the rest of the string after the match.\<close>

fun alnums :: "nat \<Rightarrow> string \<Rightarrow> string option" where
  "alnums 0 s = Some s"
| "alnums (Suc n) [] = None"
| "alnums (Suc n) (c # cs) = (if alnum c then alnums n cs else None)"

text \<open>\<^verbatim>\<open>-\<close> at the start of a string.\<close>

fun dash :: "string \<Rightarrow> string option" where
  "dash [] = None"
| "dash (c # cs) = (if c = CHR ''-'' then Some cs else None)"

text \<open>
  \<^verbatim>\<open>re.match\<close> of the pattern of \<^verbatim>\<open>device_is_id\<close>, five groups of 8, 4, 4, 4 and 12
  characters joined by dashes, matched one piece after the other. \<^verbatim>\<open>re.match\<close>
  anchors the pattern at the start of the string only.
\<close>

fun match_seq :: "(string \<Rightarrow> string option) list \<Rightarrow> string \<Rightarrow> string option" where
  "match_seq [] s = Some s"
| "match_seq (m # ms) s = (case m s of None \<Rightarrow> None | Some s' \<Rightarrow> match_seq ms s')"

definition re_match_id :: "string \<Rightarrow> bool" where
  "re_match_id s =
     (match_seq
        [alnums 8, dash, alnums 4, dash, alnums 4, dash, alnums 4, dash, alnums 12] s \<noteq> None)"

definition device_is_id :: "params \<Rightarrow> bool" where
  "device_is_id p = (if re_match_id (device p) then True else False)"

definition device_is_name :: "(string \<Rightarrow> bool) \<Rightarrow> params \<Rightarrow> bool" where
  "device_is_name ip p =
     (if \<not> device_is_address ip p \<and> \<not> device_is_id p then True else False)"

definition device_address :: "(string \<Rightarrow> bool) \<Rightarrow> params \<Rightarrow> string option" where
  "device_address ip p = (if device_is_address ip p then Some (device p) else None)"

definition unknown_device_format :: "params \<Rightarrow> error" where
  "unknown_device_format p =
     F5ModuleError (Format (''Unknown device format '{0}'' @ [CHR 0x27]) [Lit (device p)])"

definition device_reference :: "(string \<Rightarrow> bool) \<Rightarrow> (nat \<Rightarrow> response) \<Rightarrow> params \<Rightarrow> fmt option io" where
  "device_reference ip rs p =
     (if \<not> truthy (managed p) then io_return None
      else
        io_bind
          (if device_is_address ip p
           then io_return (Format (''address+eq+'{0}...{0}'' @ [CHR 0x27]) [Lit (device p)])
           else if device_is_name ip p
           then io_return (Format (''hostname+eq+'{0}'' @ [CHR 0x27]) [Lit (device p)])
           else if device_is_id p
           then io_return (Format (''uuid+eq+'{0}'' @ [CHR 0x27]) [Lit (device p)])
           else io_raise (unknown_device_format p))
          (\<lambda>filter.
        io_bind
          (client_get rs
             (Format ''/mgmt/shared/resolver/device-groups/cm-bigip-allBigIpDevices/devices/?$filter={0}&$top=1''
                [filter]))
          (\<lambda>response.
        if bad_code response then io_raise (F5ModuleError (FJson (contents response)))
        else
        io_bind (io_lift (no_items response))
          (\<lambda>none.
        if none
        then io_raise (F5ModuleError (Lit ''No device with the specified address was found.''))
        else
        io_bind (io_lift (first_item response ''uuid''))
          (\<lambda>id.
        io_return
          (Some (Format ''https://localhost/mgmt/shared/resolver/device-groups/cm-bigip-allBigIpDevices/devices/{0}''
                   [FJson id])))))))"

definition offering_id :: "(nat \<Rightarrow> response) \<Rightarrow> params \<Rightarrow> json io" where
  "offering_id rs p =
     io_bind
       (client_get rs
          (Format ''/mgmt/cm/device/licensing/pool/utility/licenses/{0}/offerings?$filter={1}&$top=1''
             [Lit (key p), Format (''(name+eq+'{0}'' @ [CHR 0x27] @ '')'') [Lit (offering p)]]))
       (\<lambda>response.
     if bad_code response then io_raise (F5ModuleError (FJson (contents response)))
     else
     io_bind (io_lift (no_items response))
       (\<lambda>none.
     if none
     then io_raise (F5ModuleError (Lit ''No offering with the specified name was found.''))
     else io_lift (first_item response ''id'')))"

text \<open>
  \<^verbatim>\<open>member_id\<close> is \<^verbatim>\<open>None\<close> when the filtered query finds no member. \<^verbatim>\<open>None\<close> is \<open>JNull\<close>,
  which is also what a \<^verbatim>\<open>null\<close> identifier in the response reads as.
\<close>

definition member_id :: "(string \<Rightarrow> bool) \<Rightarrow> (nat \<Rightarrow> response) \<Rightarrow> params \<Rightarrow> json io" where
  "member_id ip rs p =
     io_bind
       (if device_is_address ip p
        then io_return (Format (''deviceAddress+eq+'{0}...{0}'' @ [CHR 0x27]) [Lit (device p)])
        else if device_is_name ip p
        then io_return (Format (''deviceName+eq+'{0}'' @ [CHR 0x27]) [Lit (device p)])
        else if device_is_id p
        then io_return (Format (''deviceMachineId+eq+'{0}'' @ [CHR 0x27]) [Lit (device p)])
        else io_raise (unknown_device_format p))
       (\<lambda>filter.
     io_bind (offering_id rs p)
       (\<lambda>oid.
     io_bind
       (client_get rs
          (Format ''/mgmt/cm/device/licensing/pool/utility/licenses/{0}/offerings/{1}/members/?$filter={2}''
             [Lit (key p), FJson oid, filter]))
       (\<lambda>response.
     if bad_code response then io_raise (F5ModuleError (FJson (contents response)))
     else
     io_bind (io_lift (no_items response))
       (\<lambda>none.
     if none then io_return JNull
     else io_lift (first_item response ''id'')))))"

subsection \<open>UsableChanges\<close>

definition usable_device_port :: "changes_values \<Rightarrow> int option" where
  "usable_device_port v = (if truthy (v_managed v) then None else v_device_port v)"

definition usable_device_username :: "changes_values \<Rightarrow> string option" where
  "usable_device_username v = (if truthy (v_managed v) then None else v_device_username v)"

definition usable_device_password :: "changes_values \<Rightarrow> string option" where
  "usable_device_password v = (if truthy (v_managed v) then None else v_device_password v)"

definition usable_device_reference :: "changes_values \<Rightarrow> fmt option" where
  "usable_device_reference v = (if \<not> truthy (v_managed v) then None else v_device_reference v)"

definition usable_device_address :: "changes_values \<Rightarrow> string option" where
  "usable_device_address v = (if truthy (v_managed v) then None else v_device_address v)"

definition usable_managed :: "changes_values \<Rightarrow> bool option" where
  "usable_managed v = None"

text \<open>
  The two field groups of a change set, as \<^verbatim>\<open>UsableChanges\<close> reads them: the reference
  to a managed device, and the address, port and credentials of an unmanaged one.
\<close>

definition managed_group_populated :: "changes_values \<Rightarrow> bool" where
  "managed_group_populated v = (usable_device_reference v \<noteq> None)"

definition unmanaged_group_populated :: "changes_values \<Rightarrow> bool" where
  "unmanaged_group_populated v =
     (usable_device_port v \<noteq> None \<or> usable_device_username v \<noteq> None \<or>
      usable_device_password v \<noteq> None \<or> usable_device_address v \<noteq> None)"

text \<open>
  \<^verbatim>\<open>to_return\<close> reads every name of \<^verbatim>\<open>returnables\<close> with \<^verbatim>\<open>getattr\<close> and drops the
  values that are \<^verbatim>\<open>None\<close>: \<^verbatim>\<open>UsableChanges\<close> reads through its properties, and \<^verbatim>\<open>Changes\<close>,
  which defines none, reads the stored values.
\<close>

fun to_return :: "changes \<Rightarrow> changes_values" where
  "to_return (UsableChanges v) =
     \<lparr> v_device_address = usable_device_address v,
       v_device_reference = usable_device_reference v,
       v_device_username = usable_device_username v,
       v_device_password = usable_device_password v,
       v_device_port = usable_device_port v,
       v_managed = usable_managed v,
       v_unit_of_measure = v_unit_of_measure v \<rparr>"
| "to_return (Changes v) = v"

text \<open>
  The same two groups for any object \<^verbatim>\<open>self.changes\<close> can hold, read the way
  \<^verbatim>\<open>to_return\<close> reads it: through the properties of \<^verbatim>\<open>UsableChanges\<close>, and as stored for a
  plain \<^verbatim>\<open>Changes\<close>.
\<close>

definition reads_managed_group :: "changes \<Rightarrow> bool" where
  "reads_managed_group c = (v_device_reference (to_return c) \<noteq> None)"

definition reads_unmanaged_group :: "changes \<Rightarrow> bool" where
  "reads_unmanaged_group c =
     (v_device_port (to_return c) \<noteq> None \<or> v_device_username (to_return c) \<noteq> None \<or>
      v_device_password (to_return c) \<noteq> None \<or> v_device_address (to_return c) \<noteq> None)"

subsection \<open>ModuleManager\<close>

definition init_manager :: manager where
  "init_manager = \<lparr> requests = [], changes = UsableChanges no_values \<rparr>"

text \<open>
  \<^verbatim>\<open>_set_changed_options\<close>: every name of \<^verbatim>\<open>returnables\<close> is read from \<^verbatim>\<open>self.want\<close>,
  and read a second time when the first value is not \<^verbatim>\<open>None\<close>. Only \<^verbatim>\<open>device_reference\<close>
  sends a request when it is read.
\<close>

definition set_changed_options :: "(string \<Rightarrow> bool) \<Rightarrow> (nat \<Rightarrow> response) \<Rightarrow> params \<Rightarrow> unit io" where
  "set_changed_options ip rs p =
     io_bind (device_reference ip rs p)
       (\<lambda>r1.
     io_bind (case r1 of None \<Rightarrow> io_return None | Some r \<Rightarrow> device_reference ip rs p)
       (\<lambda>r2.
     let changed =
       \<lparr> v_device_address = device_address ip p,
         v_device_reference = r2,
         v_device_username = device_username p,
         v_device_password = device_password p,
         v_device_port = device_port p,
         v_managed = managed p,
         v_unit_of_measure = unit_of_measure p \<rparr>
     in if changed \<noteq> no_values
        then (\<lambda>s. (Inr (), s\<lparr>changes := Changes changed\<rparr>))
        else io_return ()))"

text \<open>
  The address of a member, which \<^verbatim>\<open>exists\<close>, \<^verbatim>\<open>wait_for_device_to_be_licensed\<close> and
  \<^verbatim>\<open>remove_from_device\<close> each build with the same expression. Reading
  \<^verbatim>\<open>self.want.offering_id\<close> and \<^verbatim>\<open>self.want.member_id\<close> sends three requests.
\<close>

definition member_uri :: "(string \<Rightarrow> bool) \<Rightarrow> (nat \<Rightarrow> response) \<Rightarrow> params \<Rightarrow> fmt io" where
  "member_uri ip rs p =
     io_bind (offering_id rs p)
       (\<lambda>oid.
     io_bind (member_id ip rs p)
       (\<lambda>mid.
     io_return
       (Format ''/mgmt/cm/device/licensing/pool/utility/licenses/{0}/offerings/{1}/members/{2}''
          [Lit (key p), FJson oid, FJson mid])))"

definition exists :: "(string \<Rightarrow> bool) \<Rightarrow> (nat \<Rightarrow> response) \<Rightarrow> params \<Rightarrow> bool io" where
  "exists ip rs p =
     io_bind (member_id ip rs p)
       (\<lambda>mid.
     if mid = JNull then io_return False
     else
     io_bind (member_uri ip rs p)
       (\<lambda>u.
     io_bind (client_get rs u)
       (\<lambda>response.
     if code response = 404 then io_return False
     else if bad_code response then io_raise (F5ModuleError (FJson (contents response)))
     else io_return True)))"

fun opt_str :: "string option \<Rightarrow> pyval" where
  "opt_str None = PNone"
| "opt_str (Some s) = PStr (Lit s)"

text \<open>
  \<^verbatim>\<open>api_params\<close> belongs to \<^verbatim>\<open>AnsibleF5Parameters\<close> too: it is the parameter \<open>ap\<close>, from
  \<^verbatim>\<open>self.changes\<close> to the dictionary it returns, in insertion order. The body of a request
  plays no part in what the device answers.
\<close>

definition create_on_device ::
  "(changes \<Rightarrow> (string \<times> pyval) list) \<Rightarrow> (nat \<Rightarrow> response) \<Rightarrow> params \<Rightarrow> bool io" where
  "create_on_device ap rs p =
     (\<lambda>s.
     (let params = ap (changes s) in
     io_bind (offering_id rs p)
       (\<lambda>oid.
     let params' =
       (if \<not> truthy (managed p)
        then AList.update ''password'' (opt_str (device_password p))
               (AList.update ''username'' (opt_str (device_username p)) params)
        else params)
     in
     io_bind
       (client_post rs
          (Format ''/mgmt/cm/device/licensing/pool/utility/licenses/{0}/offerings/{1}/members/''
             [Lit (key p), FJson oid])
          params')
       (\<lambda>response.
     if bad_code response then io_raise (F5ModuleError (FJson (contents response)))
     else io_return True))) s)"

text \<open>
  A run that may not return: \<open>None\<close> is a run that never ends, \<open>Some\<close> holds the result
  or the exception, and the state then.
\<close>

type_synonym 'a run = "manager \<Rightarrow> ((error + 'a) \<times> manager) option"

definition run_bind :: "'a run \<Rightarrow> ('a \<Rightarrow> 'b run) \<Rightarrow> 'b run" where
  "run_bind m f s =
     (case m s of
        None \<Rightarrow> None
      | Some (Inl e, s') \<Rightarrow> Some (Inl e, s')
      | Some (Inr x, s') \<Rightarrow> f x s')"

definition run_io :: "'a io \<Rightarrow> 'a run" where
  "run_io m s = Some (m s)"

text \<open>The loop of \<^verbatim>\<open>wait_for_device_to_be_licensed\<close>, from the value of \<^verbatim>\<open>count\<close>.\<close>

partial_function (option) wait_loop ::
  "(nat \<Rightarrow> response) \<Rightarrow> fmt \<Rightarrow> nat \<Rightarrow> manager \<Rightarrow> ((error + unit) \<times> manager) option" where
  "wait_loop rs u count s =
     (if count < 3
      then
        (case client_get rs u s of
           (Inl e, s') \<Rightarrow> Some (Inl e, s')
         | (Inr response, s') \<Rightarrow>
             if bad_code response
             then Some (Inl (F5ModuleError (FJson (contents response))), s')
             else
               (case getitem (contents response) ''status'' of
                  Inl e \<Rightarrow> Some (Inl e, s')
                | Inr status \<Rightarrow>
                    if status = JStr ''LICENSED''
                    then wait_loop rs u (count + 1) s'
                    else wait_loop rs u 0 s'))
      else Some (Inr (), s))"

definition wait_for_device_to_be_licensed ::
  "(string \<Rightarrow> bool) \<Rightarrow> (nat \<Rightarrow> response) \<Rightarrow> params \<Rightarrow> unit run" where
  "wait_for_device_to_be_licensed ip rs p =
     run_bind (run_io (member_uri ip rs p)) (\<lambda>u. wait_loop rs u 0)"

definition create ::
  "(string \<Rightarrow> bool) \<Rightarrow> (changes \<Rightarrow> (string \<times> pyval) list) \<Rightarrow> (nat \<Rightarrow> response) \<Rightarrow> bool \<Rightarrow> params
     \<Rightarrow> bool run" where
  "create ip ap rs check_mode p =
     run_bind (run_io (set_changed_options ip rs p))
       (\<lambda>_.
     if \<not> truthy (managed p) \<and> device_username p = None
     then run_io (io_raise (F5ModuleError
            (Lit ''You must specify a 'device_username' when working with unmanaged devices.'')))
     else if \<not> truthy (managed p) \<and> device_password p = None
     then run_io (io_raise (F5ModuleError
            (Lit ''You must specify a 'device_password' when working with unmanaged devices.'')))
     else if check_mode then run_io (io_return True)
     else
     run_bind (run_io (create_on_device ap rs p))
       (\<lambda>_.
     run_bind (run_io (exists ip rs p))
       (\<lambda>found.
     if \<not> found
     then run_io (io_raise (F5ModuleError (Lit ''Failed to license the remote device.'')))
     else
     run_bind (wait_for_device_to_be_licensed ip rs p)
       (\<lambda>_. run_io (io_return True)))))"

definition present ::
  "(string \<Rightarrow> bool) \<Rightarrow> (changes \<Rightarrow> (string \<times> pyval) list) \<Rightarrow> (nat \<Rightarrow> response) \<Rightarrow> bool \<Rightarrow> params
     \<Rightarrow> bool run" where
  "present ip ap rs check_mode p =
     run_bind (run_io (exists ip rs p))
       (\<lambda>found. if found then run_io (io_return False) else create ip ap rs check_mode p)"

text \<open>The response to the \<^verbatim>\<open>DELETE\<close> is not looked at.\<close>

definition remove_from_device ::
  "(string \<Rightarrow> bool) \<Rightarrow> (changes \<Rightarrow> (string \<times> pyval) list) \<Rightarrow> (nat \<Rightarrow> response) \<Rightarrow> params
     \<Rightarrow> unit io" where
  "remove_from_device ip ap rs p =
     io_bind (member_uri ip rs p)
       (\<lambda>u.
     io_bind
       (if \<not> truthy (managed p)
        then (\<lambda>s.
          io_bind (member_id ip rs p)
            (\<lambda>mid.
          io_return
            (AList.update ''password'' (opt_str (device_password p))
               (AList.update ''username'' (opt_str (device_username p))
                  (AList.update ''id'' (PJson mid) (ap (changes s)))))) s)
        else io_return [])
       (\<lambda>params.
     io_bind (client_delete rs u params)
       (\<lambda>response. io_return ())))"

definition remove ::
  "(string \<Rightarrow> bool) \<Rightarrow> (changes \<Rightarrow> (string \<times> pyval) list) \<Rightarrow> (nat \<Rightarrow> response) \<Rightarrow> bool \<Rightarrow> params
     \<Rightarrow> bool io" where
  "remove ip ap rs check_mode p =
     io_bind (set_changed_options ip rs p)
       (\<lambda>_.
     if check_mode then io_return True
     else
     io_bind (remove_from_device ip ap rs p)
       (\<lambda>_.
     io_bind (exists ip rs p)
       (\<lambda>found.
     if found then io_raise (F5ModuleError (Lit ''Failed to delete the resource.''))
     else io_return True)))"

definition absent ::
  "(string \<Rightarrow> bool) \<Rightarrow> (changes \<Rightarrow> (string \<times> pyval) list) \<Rightarrow> (nat \<Rightarrow> response) \<Rightarrow> bool \<Rightarrow> params
     \<Rightarrow> bool io" where
  "absent ip ap rs check_mode p =
     io_bind (exists ip rs p)
       (\<lambda>found. if found then remove ip ap rs check_mode p else io_return False)"

text \<open>The result of a run: the reported values and the \<^verbatim>\<open>changed\<close> flag.\<close>

record result =
  reported :: changes_values
  changed :: bool

text \<open>
  \<^verbatim>\<open>exec_module\<close>. \<^verbatim>\<open>ReportableChanges\<close> defines no property, so its \<^verbatim>\<open>to_return\<close>
  gives back the values it was built from.
\<close>

definition exec_module ::
  "(string \<Rightarrow> bool) \<Rightarrow> (changes \<Rightarrow> (string \<times> pyval) list) \<Rightarrow> (nat \<Rightarrow> response) \<Rightarrow> bool \<Rightarrow> params
     \<Rightarrow> result run" where
  "exec_module ip ap rs check_mode p =
     run_bind
       (if state p = ''present'' then present ip ap rs check_mode p
        else if state p = ''absent'' then run_io (absent ip ap rs check_mode p)
        else run_io (io_return False))
       (\<lambda>c s.
          Some (Inr \<lparr> reported = to_return (Changes (to_return (changes s))), changed = c \<rparr>, s))"

subsection \<open>What a run sends\<close>

text \<open>
  \<open>only_gets s s'\<close>: the state \<open>s'\<close> keeps the requests of \<open>s\<close>, and every request
  sent since is a \<^verbatim>\<open>GET\<close>.
\<close>

definition only_gets :: "manager \<Rightarrow> manager \<Rightarrow> bool" where
  "only_gets s s' =
     (take (length (requests s)) (requests s') = requests s \<and>
      list_all (\<lambda>q. verb q = GET) (drop (length (requests s)) (requests s')))"

text \<open>A computation that sends nothing but \<^verbatim>\<open>GET\<close> requests, from every state.\<close>

definition io_gets :: "'a io \<Rightarrow> bool" where
  "io_gets m = (\<forall>s. only_gets s (snd (m s)))"

text \<open>
  What \<^verbatim>\<open>wait_for_device_to_be_licensed\<close> reads in the answer to a poll: a code of the
  list \<^verbatim>\<open>[200, 201, 202]\<close> and a \<^verbatim>\<open>status\<close>, which is \<^verbatim>\<open>'LICENSED'\<close> or not; and three
  answers in a row, from the \<open>n\<close>-th on, that read \<^verbatim>\<open>'LICENSED'\<close>.
\<close>

definition polled_ok :: "response \<Rightarrow> bool" where
  "polled_ok r =
     (\<not> bad_code r \<and> (case getitem (contents r) ''status'' of Inl e \<Rightarrow> False | Inr st \<Rightarrow> True))"

definition licensed :: "response \<Rightarrow> bool" where
  "licensed r = (getitem (contents r) ''status'' = Inr (JStr ''LICENSED''))"

definition licensed3 :: "(nat \<Rightarrow> response) \<Rightarrow> nat \<Rightarrow> bool" where
  "licensed3 rs n = (licensed (rs n) \<and> licensed (rs (n + 1)) \<and> licensed (rs (n + 2)))"

subsection \<open>Sample runs\<close>

text \<open>
  The inputs at which the theorems below are instantiated: a device that answers with
  the responses of a list, in order, and with one last response for ever after; a
  stand-in for \<^verbatim>\<open>is_valid_ip\<close> and one for \<^verbatim>\<open>api_params\<close>; the parameters of the first
  task of the module's documentation; the responses of a BIG-IQ to the lookups.
\<close>

definition script :: "response list \<Rightarrow> response \<Rightarrow> nat \<Rightarrow> response" where
  "script xs d n = (if n < length xs then xs ! n else d)"

definition sample_ip :: "string \<Rightarrow> bool" where
  "sample_ip s = (s = ''1.1.1.1'')"

definition sample_api_params :: "changes \<Rightarrow> (string \<times> pyval) list" where
  "sample_api_params c =
     (case v_unit_of_measure (to_return c) of
        None \<Rightarrow> []
      | Some u \<Rightarrow> [(''unitOfMeasure'', PStr (Lit u))])"

definition unmanaged_device :: "string \<Rightarrow> params" where
  "unmanaged_device st =
     \<lparr> offering = ''F5-BIG-MSP-AFM-10G-LIC'', unit_of_measure = Some ''hourly'',
       key = ''XXXX-XXXX-XXXX-XXXX-XXXX'', device = ''1.1.1.1'', managed = Some False,
       device_port = Some 443, device_username = Some ''admin'',
       device_password = Some ''secret'', state = st \<rparr>"

definition found :: "string \<Rightarrow> response" where
  "found i =
     \<lparr> code = 200,
       contents = JObj [(''totalItems'', JInt 1), (''items'', JList [JObj [(''id'', JStr i)]])] \<rparr>"

definition nothing_found :: response where
  "nothing_found = \<lparr> code = 200, contents = JObj [(''totalItems'', JInt 0), (''items'', JList [])] \<rparr>"

definition member_status :: "int \<Rightarrow> string \<Rightarrow> response" where
  "member_status c st = \<lparr> code = c, contents = JObj [(''status'', JStr st)] \<rparr>"

text \<open>
  The answers to the five lookups of \<^verbatim>\<open>exists\<close> that come before the \<^verbatim>\<open>GET\<close> of the
  member: offering, member, and then offering, offering and member again, to build the
  address of the member.
\<close>

definition lookups_found :: "response list" where
  "lookups_found = [found ''o1'', found ''m1'', found ''o1'', found ''o1'', found ''m1'']"

definition sample_member_uri :: fmt where
  "sample_member_uri =
     Format ''/mgmt/cm/device/licensing/pool/utility/licenses/{0}/offerings/{1}/members/{2}''
       [Lit ''XXXX-XXXX-XXXX-XXXX-XXXX'', FJson (JStr ''o1''), FJson (JStr ''m1'')]"

text \<open>
  Runs of \<^verbatim>\<open>wait_for_device_to_be_licensed\<close>: three lookups build the address of the
  member, and every response after them answers a poll. In the first run the status reads
  \<^verbatim>\<open>'LICENSED'\<close> twice, falls back, and reads \<^verbatim>\<open>'LICENSED'\<close> from then on; in the two others
  it never reads \<^verbatim>\<open>'LICENSED'\<close>.
\<close>

definition three_lookups :: "response list" where
  "three_lookups = [found ''o1'', found ''o1'', found ''m1'']"

definition licensed_late :: "nat \<Rightarrow> response" where
  "licensed_late =
     script
       (three_lookups @
        [member_status 200 ''PENDING'', member_status 200 ''LICENSED'',
         member_status 200 ''LICENSED'', member_status 200 ''PENDING''])
       (member_status 200 ''LICENSED'')"

definition still_installing :: "nat \<Rightarrow> response" where
  "still_installing = script three_lookups (member_status 202 ''INSTALLING'')"

definition always_pending :: "nat \<Rightarrow> response" where
  "always_pending = script three_lookups (member_status 200 ''PENDING'')"

text \<open>
  A run with \<^verbatim>\<open>state=absent\<close> for a licensed device: \<^verbatim>\<open>exists\<close> finds the member (six
  requests), \<^verbatim>\<open>remove_from_device\<close> builds the address of the member (three) and reads
  \<^verbatim>\<open>member_id\<close> once more for the body (two), the \<^verbatim>\<open>DELETE\<close>, the twelfth request, is
  answered by code 500, and the member is not found afterwards.
\<close>

definition server_error :: response where
  "server_error = \<lparr> code = 500, contents = JStr ''Internal Server Error'' \<rparr>"

definition delete_refused :: "nat \<Rightarrow> response" where
  "delete_refused =
     script
       (lookups_found @ [member_status 200 ''LICENSED''] @ three_lookups @
        [found ''o1'', found ''m1''] @ [server_error] @ [found ''o1''])
       nothing_found"

text \<open>
  A run with \<^verbatim>\<open>state=present\<close> for a managed device that is given by its address. The
  member is not found at first (two requests); \<^verbatim>\<open>_set_changed_options\<close> reads
  \<^verbatim>\<open>device_reference\<close> twice (two); \<^verbatim>\<open>create_on_device\<close> looks the offering up and sends
  the \<^verbatim>\<open>POST\<close>, the sixth request; \<^verbatim>\<open>exists\<close> then finds the member (six), and the status
  reads \<^verbatim>\<open>'LICENSED'\<close> at once (three lookups and three polls).
\<close>

definition managed_device :: "string \<Rightarrow> params" where
  "managed_device st =
     \<lparr> offering = ''F5-BIG-MSP-AFM-10G-LIC'', unit_of_measure = Some ''hourly'',
       key = ''XXXX-XXXX-XXXX-XXXX-XXXX'', device = ''1.1.1.1'', managed = Some True,
       device_port = Some 443, device_username = Some ''admin'',
       device_password = Some ''secret'', state = st \<rparr>"

definition device_found :: "string \<Rightarrow> response" where
  "device_found i =
     \<lparr> code = 200,
       contents = JObj [(''totalItems'', JInt 1), (''items'', JList [JObj [(''uuid'', JStr i)]])] \<rparr>"

definition managed_licensing :: "nat \<Rightarrow> response" where
  "managed_licensing =
     script
       ([found ''o1'', nothing_found, device_found ''d1'', device_found ''d1'', found ''o1'',
         member_status 200 ''INSTALLING''] @
        lookups_found @ [member_status 200 ''LICENSED''] @ three_lookups)
       (member_status 200 ''LICENSED'')"

text \<open>The values that this run stores in \<^verbatim>\<open>self.changes\<close>.\<close>

definition both_groups :: changes_values where
  "both_groups =
     \<lparr> v_device_address = Some ''1.1.1.1'',
       v_device_reference =
         Some (Format ''https://localhost/mgmt/shared/resolver/device-groups/cm-bigip-allBigIpDevices/devices/{0}''
                 [FJson (JStr ''d1'')]),
       v_device_username = Some ''admin'', v_device_password = Some ''secret'',
       v_device_port = Some 443, v_managed = Some True, v_unit_of_measure = Some ''hourly'' \<rparr>"

section \<open>Properties\<close>

subsection \<open>Auxiliary facts\<close>

lemma io_simps [simp]:
  "io_return x s = (Inr x, s)"
  "io_raise e s = (Inl e, s)"
  "io_lift r s = (r, s)"
  by (simp_all add: io_return_def io_raise_def io_lift_def)

lemma only_gets_refl [simp]: "only_gets s s"
  by (simp add: only_gets_def)

lemma only_gets_append:
  "only_gets s s' \<longleftrightarrow> (\<exists>qs. requests s' = requests s @ qs \<and> list_all (\<lambda>q. verb q = GET) qs)"
  unfolding only_gets_def
  by (metis append_eq_conv_conj append_take_drop_id)

lemma only_gets_trans: "only_gets s s' \<Longrightarrow> only_gets s' s'' \<Longrightarrow> only_gets s s''"
  unfolding only_gets_append by auto

lemma only_gets_changes [simp]: "only_gets s (s'\<lparr>changes := c\<rparr>) = only_gets s s'"
  by (simp add: only_gets_def)

lemma io_gets_return: "io_gets (io_return x)"
  and io_gets_raise: "io_gets (io_raise e)"
  and io_gets_lift: "io_gets (io_lift r)"
  by (simp_all add: io_gets_def)

lemma io_gets_client_get: "io_gets (client_get rs u)"
  by (simp add: io_gets_def client_get_def client_call_def only_gets_def)

lemma io_gets_bind: "io_gets m \<Longrightarrow> (\<And>x. io_gets (f x)) \<Longrightarrow> io_gets (io_bind m f)"
  unfolding io_gets_def io_bind_def
  apply (auto split: prod.splits sum.splits)
  apply (metis snd_conv)
  by (metis only_gets_trans snd_conv)

lemma io_gets_if: "(c \<Longrightarrow> io_gets a) \<Longrightarrow> (\<not> c \<Longrightarrow> io_gets b) \<Longrightarrow> io_gets (if c then a else b)"
  by simp

lemmas io_gets_intros = io_gets_return io_gets_raise io_gets_lift io_gets_client_get
  io_gets_bind io_gets_if

lemma io_gets_offering_id: "io_gets (offering_id rs p)"
  unfolding offering_id_def by (intro io_gets_intros)

lemma io_gets_member_id: "io_gets (member_id ip rs p)"
  unfolding member_id_def by (intro io_gets_intros io_gets_offering_id)

lemma io_gets_device_reference: "io_gets (device_reference ip rs p)"
  unfolding device_reference_def by (intro io_gets_intros)

lemma io_gets_member_uri: "io_gets (member_uri ip rs p)"
  unfolding member_uri_def by (intro io_gets_intros io_gets_offering_id io_gets_member_id)

lemma io_gets_exists: "io_gets (exists ip rs p)"
  unfolding exists_def by (intro io_gets_intros io_gets_member_uri io_gets_member_id)

lemma io_gets_set_changed_options: "io_gets (set_changed_options ip rs p)"
  unfolding set_changed_options_def Let_def
  apply (intro io_gets_intros io_gets_device_reference)
   apply (simp split: option.splits add: io_gets_intros io_gets_device_reference)
  apply (simp add: io_gets_def)
  done

lemma re_match_id_alnums: "re_match_id s \<Longrightarrow> alnums 8 s \<noteq> None"
  by (auto simp: re_match_id_def split: option.splits)

lemma getitem_not_F5: "getitem j k = Inl (F5ModuleError m) \<Longrightarrow> False"
  by (cases j) (simp_all split: option.splits)

lemma getitem0_not_F5: "getitem0 j = Inl (F5ModuleError m) \<Longrightarrow> False"
  by (cases j rule: getitem0.cases) simp_all

lemma no_items_not_F5: "no_items r = Inl (F5ModuleError m) \<Longrightarrow> False"
  by (auto simp: no_items_def split: sum.splits if_splits dest: getitem_not_F5)

lemma first_item_not_F5: "first_item r k = Inl (F5ModuleError m) \<Longrightarrow> False"
  by (auto simp: first_item_def split: sum.splits dest: getitem_not_F5 getitem0_not_F5)

lemma offering_id_not_unknown: "fst (offering_id rs p s) \<noteq> Inl (unknown_device_format p)"
  by (auto dest: no_items_not_F5 first_item_not_F5 simp: offering_id_def io_bind_def unknown_device_format_def client_get_def client_call_def
      split: prod.splits sum.splits if_splits)


lemma run_bind_io [simp]:
  "run_bind (run_io m) f s = (case m s of (Inl e, s') \<Rightarrow> Some (Inl e, s') | (Inr x, s') \<Rightarrow> f x s')"
  by (simp add: run_bind_def run_io_def split: prod.splits sum.splits)

lemma run_io_simp [simp]: "run_io m s = Some (m s)"
  by (simp add: run_io_def)

lemma create_check_mode:
  "\<exists>r s'. create ip ap rs True p s = Some (r, s') \<and> only_gets s s'"
proof -
  have "only_gets s (snd (set_changed_options ip rs p s))"
    using io_gets_set_changed_options by (simp add: io_gets_def)
  then show ?thesis
    by (auto simp: create_def split: prod.splits sum.splits)
qed

lemma remove_check_mode: "only_gets s (snd (remove ip ap rs True p s))"
proof -
  have "only_gets s (snd (set_changed_options ip rs p s))"
    using io_gets_set_changed_options by (simp add: io_gets_def)
  then show ?thesis
    by (auto simp: remove_def io_bind_def split: prod.splits sum.splits)
qed

lemma present_check_mode:
  "\<exists>r s'. present ip ap rs True p s = Some (r, s') \<and> only_gets s s'"
proof -
  have e: "only_gets s (snd (exists ip rs p s))"
    using io_gets_exists by (simp add: io_gets_def)
  show ?thesis
  proof (cases "exists ip rs p s")
    case (Pair r s1)
    with e have g: "only_gets s s1" by simp
    show ?thesis
    proof (cases r)
      case (Inl err)
      with Pair g show ?thesis by (simp add: present_def)
    next
      case (Inr found)
      obtain r2 s2 where c: "create ip ap rs True p s1 = Some (r2, s2)" "only_gets s1 s2"
        using create_check_mode by blast
      with Pair Inr g show ?thesis
        by (auto simp: present_def intro: only_gets_trans)
    qed
  qed
qed

lemma absent_check_mode: "only_gets s (snd (absent ip ap rs True p s))"
proof -
  have e: "only_gets s (snd (exists ip rs p s))"
    using io_gets_exists by (simp add: io_gets_def)
  show ?thesis
    using e remove_check_mode[of _ ip ap rs p]
    by (auto simp: absent_def io_bind_def split: prod.splits sum.splits intro: only_gets_trans)
qed


lemma offering_id_length:
  "offering_id rs p s = (r, s1) \<Longrightarrow> length (requests s1) = Suc (length (requests s))"
  by (auto simp: offering_id_def io_bind_def client_get_def client_call_def
      split: prod.splits sum.splits if_splits)

lemma no_items_True_code: "no_items r = Inr True \<Longrightarrow> \<not> bad_code r"
  by (auto simp: no_items_def bad_code_def split: if_splits)

lemma io_bind_return: "io_bind (io_return x) f = f x"
  by (rule ext) (simp add: io_bind_def)

lemma filter_chosen:
  "(if device_is_address ip p then io_return a
    else if device_is_name ip p then io_return b
    else if device_is_id p then io_return c
    else io_raise e) =
   io_return (if device_is_address ip p then a else if device_is_name ip p then b else c)"
  by (simp add: device_is_name_def)

lemma member_id_step:
  "offering_id rs p s = (Inr oid, s1) \<Longrightarrow>
   fst (member_id ip rs p s) =
     (if bad_code (rs (length (requests s1)))
      then Inl (F5ModuleError (FJson (contents (rs (length (requests s1))))))
      else case no_items (rs (length (requests s1))) of
             Inl e \<Rightarrow> Inl e
           | Inr none \<Rightarrow>
               if none then Inr JNull
               else first_item (rs (length (requests s1))) ''id'') \<and>
   length (requests (snd (member_id ip rs p s))) = Suc (length (requests s1))"
  unfolding member_id_def filter_chosen io_bind_return
  by (simp add: io_bind_def client_get_def client_call_def split: sum.splits)

lemma member_id_fails:
  "offering_id rs p s = (Inl e, s1) \<Longrightarrow> member_id ip rs p s = (Inl e, s1)"
  unfolding member_id_def filter_chosen io_bind_return
  by (simp add: io_bind_def)

lemma member_id_empty:
  assumes "offering_id rs p s = (Inr oid, s1)"
    and "no_items (rs (length (requests s1))) = Inr True"
  shows "\<exists>s'. member_id ip rs p s = (Inr JNull, s') \<and>
           length (requests s') = length (requests s) + 2"
  using member_id_step[OF assms(1), of ip] assms(2) no_items_True_code[OF assms(2)]
    offering_id_length[OF assms(1)]
  by (cases "member_id ip rs p s") simp

lemma member_id_None_D:
  assumes "member_id ip rs p s = (Inr JNull, s')"
  shows "\<exists>oid s1. offering_id rs p s = (Inr oid, s1) \<and>
           (no_items (rs (length (requests s1))) = Inr True \<or>
            first_item (rs (length (requests s1))) ''id'' = Inr JNull)"
proof (cases "offering_id rs p s")
  case (Pair r s1)
  show ?thesis
  proof (cases r)
    case (Inl e)
    with Pair assms member_id_fails[of rs p s e s1 ip] show ?thesis by simp
  next
    case (Inr oid)
    with Pair have o: "offering_id rs p s = (Inr oid, s1)" by simp
    from member_id_step[OF o, of ip] assms
    have "no_items (rs (length (requests s1))) = Inr True \<or>
          first_item (rs (length (requests s1))) ''id'' = Inr JNull"
      by (auto split: if_splits sum.splits)
    with o show ?thesis by blast
  qed
qed

lemma exists_empty:
  assumes "offering_id rs p s = (Inr oid, s1)"
    and "no_items (rs (length (requests s1))) = Inr True"
  shows "\<exists>s'. exists ip rs p s = (Inr False, s') \<and> only_gets s s' \<and>
           length (requests s') = length (requests s) + 2"
proof -
  obtain s' where m: "member_id ip rs p s = (Inr JNull, s')"
    and l: "length (requests s') = length (requests s) + 2"
    using member_id_empty[OF assms] by blast
  have "only_gets s (snd (member_id ip rs p s))"
    using io_gets_member_id[of ip rs p] by (simp add: io_gets_def)
  with m have g: "only_gets s s'" by simp
  from m g l show ?thesis by (simp add: exists_def io_bind_def)
qed

lemma exists_member_get:
  assumes "member_id ip rs p s = (Inr mid, s1)"
    and "mid \<noteq> JNull"
    and "member_uri ip rs p s1 = (Inr u, s2)"
  shows "exists ip rs p s =
     ((if code (rs (length (requests s2))) = 404 then Inr False
       else if code (rs (length (requests s2))) \<in> {200, 201, 202} then Inr True
       else Inl (F5ModuleError (FJson (contents (rs (length (requests s2))))))),
      s2\<lparr>requests := requests s2 @ [\<lparr>verb = GET, uri = u, data = None\<rparr>]\<rparr>)"
  using assms
  by (simp add: exists_def io_bind_def client_get_def client_call_def bad_code_def)

lemma exists_cases:
  "(\<exists>e s'. exists ip rs p s = (Inl e, s')) \<or>
   (\<exists>s'. member_id ip rs p s = (Inr JNull, s') \<and> exists ip rs p s = (Inr False, s')) \<or>
   (\<exists>mid s1 u s2. member_id ip rs p s = (Inr mid, s1) \<and> mid \<noteq> JNull \<and>
      member_uri ip rs p s1 = (Inr u, s2))"
proof (cases "member_id ip rs p s")
  case (Pair r s1)
  show ?thesis
  proof (cases r)
    case (Inl e)
    with Pair show ?thesis by (simp add: exists_def io_bind_def)
  next
    case (Inr mid)
    show ?thesis
    proof (cases "mid = JNull")
      case True
      with Pair Inr show ?thesis by (simp add: exists_def io_bind_def)
    next
      case False
      obtain r2 s2 where u: "member_uri ip rs p s1 = (r2, s2)" by (cases "member_uri ip rs p s1")
      show ?thesis
      proof (cases r2)
        case (Inl e)
        with Pair Inr False u show ?thesis by (simp add: exists_def io_bind_def)
      next
        case (Inr uu)
        with Pair \<open>r = Inr mid\<close> False u show ?thesis by simp
      qed
    qed
  qed
qed

lemma exists_False_cases:
  assumes "fst (exists ip rs p s) = Inr False"
  shows "(\<exists>oid s1. offering_id rs p s = (Inr oid, s1) \<and>
            (no_items (rs (length (requests s1))) = Inr True \<or>
             first_item (rs (length (requests s1))) ''id'' = Inr JNull)) \<or>
         (\<exists>mid s1 u s2. member_id ip rs p s = (Inr mid, s1) \<and> mid \<noteq> JNull \<and>
            member_uri ip rs p s1 = (Inr u, s2) \<and> code (rs (length (requests s2))) = 404)"
  using exists_cases[of ip rs p s]
proof (elim disjE exE conjE)
  fix mid s1 u s2
  assume a: "member_id ip rs p s = (Inr mid, s1)" "mid \<noteq> JNull"
    "member_uri ip rs p s1 = (Inr u, s2)"
  from exists_member_get[OF a] assms have "code (rs (length (requests s2))) = 404"
    by (auto split: if_splits)
  with a show ?thesis by blast
next
  fix e s'
  assume "exists ip rs p s = (Inl e, s')"
  with assms show ?thesis by simp
next
  fix s'
  assume "member_id ip rs p s = (Inr JNull, s')"
  from member_id_None_D[OF this] show ?thesis by blast
qed

lemma exists_True_cases:
  assumes "fst (exists ip rs p s) = Inr True"
  shows "\<exists>mid s1 u s2. member_id ip rs p s = (Inr mid, s1) \<and> mid \<noteq> JNull \<and>
            member_uri ip rs p s1 = (Inr u, s2) \<and>
            code (rs (length (requests s2))) \<in> {200, 201, 202}"
  using exists_cases[of ip rs p s]
proof (elim disjE exE conjE)
  fix mid s1 u s2
  assume a: "member_id ip rs p s = (Inr mid, s1)" "mid \<noteq> JNull"
    "member_uri ip rs p s1 = (Inr u, s2)"
  from exists_member_get[OF a] assms have "code (rs (length (requests s2))) \<in> {200, 201, 202}"
    by (auto split: if_splits)
  with a show ?thesis by blast
next
  fix e s'
  assume "exists ip rs p s = (Inl e, s')"
  with assms show ?thesis by simp
next
  fix s'
  assume "exists ip rs p s = (Inr False, s')"
  with assms show ?thesis by simp
qed

lemma exec_module_present_exists:
  assumes "state p = ''present''" and "exists ip rs p s = (Inr True, s')"
  shows "exec_module ip ap rs check_mode p s =
           Some (Inr \<lparr> reported = to_return (changes s'), changed = False \<rparr>, s')"
  using assms by (cases "changes s'") (simp_all add: exec_module_def present_def run_bind_def)

lemma exec_module_absent_not_exists:
  assumes "state p = ''absent''" and "exists ip rs p s = (Inr False, s')"
  shows "exec_module ip ap rs check_mode p s =
           Some (Inr \<lparr> reported = to_return (changes s'), changed = False \<rparr>, s')"
  using assms by (cases "changes s'") (simp_all add: exec_module_def absent_def io_bind_def run_bind_def)

lemma exec_module_exists_raises:
  assumes "state p = ''present'' \<or> state p = ''absent''" and "exists ip rs p s = (Inl e, s')"
  shows "exec_module ip ap rs check_mode p s = Some (Inl e, s')"
  using assms by (auto simp: exec_module_def present_def absent_def io_bind_def run_bind_def)

lemma only_gets_exists: "only_gets s (snd (exists ip rs p s))"
  using io_gets_exists[of ip rs p] by (simp add: io_gets_def)

subsection \<open>Waiting for the license\<close>

lemma wait_loop_done: "\<not> c < 3 \<Longrightarrow> wait_loop rs u c s = Some (Inr (), s)"
  by (subst wait_loop.simps) simp

lemma wait_loop_poll:
  assumes "c < 3" and "polled_ok (rs (length (requests s)))"
  shows "wait_loop rs u c s =
     wait_loop rs u (if licensed (rs (length (requests s))) then c + 1 else 0)
       (s\<lparr>requests := requests s @ [\<lparr>verb = GET, uri = u, data = None\<rparr>]\<rparr>)"
  using assms
  by (subst wait_loop.simps)
    (auto simp: client_get_def client_call_def polled_ok_def licensed_def split: sum.splits)

lemma run_of_three:
  assumes "3 \<le> c" and "c \<le> m - n0" and "\<forall>i<c. licensed (rs (m - Suc i))"
  shows "n0 \<le> m - 3 \<and> licensed3 rs (m - 3)"
proof -
  from assms(1,2) have m: "3 \<le> m" "n0 \<le> m - 3" by arith+
  from m have e: "m - 3 + 1 = m - Suc 1" "m - 3 + 2 = m - Suc 0" "m - 3 = m - Suc 2"
    by arith+
  from assms(1) have "2 < c" "1 < c" "0 < c" by arith+
  with assms(3) have l: "licensed (rs (m - Suc 2))" "licensed (rs (m - Suc 1))"
    "licensed (rs (m - Suc 0))"
    by blast+
  have "licensed (rs (m - 3))" using l(1) by (simp only: e(3))
  moreover have "licensed (rs (m - 3 + 1))" using l(2) by (simp only: e(1))
  moreover have "licensed (rs (m - 3 + 2))" using l(3) by (simp only: e(2))
  ultimately have "licensed3 rs (m - 3)" by (simp only: licensed3_def simp_thms)
  with m show ?thesis by blast
qed

lemma wait_loop_never_aux:
  assumes "wait_loop rs u c s = Some y"
  shows "(\<forall>i\<ge>n0. polled_ok (rs i)) \<and> (\<forall>k\<ge>n0. \<not> licensed3 rs k) \<and>
         n0 \<le> length (requests s) \<and> c \<le> length (requests s) - n0 \<and>
         (\<forall>i<c. licensed (rs (length (requests s) - Suc i))) \<longrightarrow> False"
proof -
  define P where "P = (\<lambda>rs (u::fmt) c (s::manager) (y::(error + unit) \<times> manager).
     (\<forall>i\<ge>n0. polled_ok (rs i)) \<and> (\<forall>k\<ge>n0. \<not> licensed3 rs k) \<and>
         n0 \<le> length (requests s) \<and> c \<le> length (requests s) - n0 \<and>
         (\<forall>i<c. licensed (rs (length (requests s) - Suc i))) \<longrightarrow> False)"
  have "P rs u c s y"
    apply (rule wait_loop.raw_induct[where P = P, OF _ assms])
    subgoal premises prems for wl rs u c s y
    proof -
      let ?m = "length (requests s)"
      let ?s' = "s\<lparr>requests := requests s @ [\<lparr>verb = GET, uri = u, data = None\<rparr>]\<rparr>"
      let ?c' = "if licensed (rs ?m) then c + 1 else 0"
      show ?thesis
        unfolding P_def
      proof (intro impI, elim conjE)
        assume ok: "\<forall>i\<ge>n0. polled_ok (rs i)" and none: "\<forall>k\<ge>n0. \<not> licensed3 rs k"
          and n0: "n0 \<le> ?m" and c: "c \<le> ?m - n0"
          and run: "\<forall>i<c. licensed (rs (?m - Suc i))"
        have c3: "c < 3"
        proof (rule ccontr)
          assume "\<not> c < 3"
          then have "3 \<le> c" by simp
          from run_of_three[OF this c run] none show False by blast
        qed
        from ok n0 have pk: "polled_ok (rs ?m)" by simp
        from prems(2) c3 pk have "wl rs u ?c' ?s' = Some y"
          by (auto simp: client_get_def client_call_def polled_ok_def licensed_def
              split: sum.splits if_splits)
        from prems(1)[OF this] have "P rs u ?c' ?s' y" .
        moreover have "n0 \<le> length (requests ?s')" using n0 by simp
        moreover have "?c' \<le> length (requests ?s') - n0" using c n0 by (simp, arith)
        moreover have "\<forall>i<?c'. licensed (rs (length (requests ?s') - Suc i))"
        proof (intro allI impI)
          fix i assume i: "i < ?c'"
          show "licensed (rs (length (requests ?s') - Suc i))"
          proof (cases i)
            case 0
            with i show ?thesis by (simp split: if_splits)
          next
            case (Suc j)
            with i have "j < c" by (simp split: if_splits)
            with run Suc show ?thesis by simp
          qed
        qed
        ultimately show False using ok none unfolding P_def by blast
      qed
    qed
    done
  then show ?thesis unfolding P_def .
qed

lemma wait_loop_never:
  assumes "\<forall>i\<ge>length (requests s). polled_ok (rs i)"
    and "\<forall>k\<ge>length (requests s). \<not> licensed3 rs k"
  shows "wait_loop rs u 0 s = None"
proof (cases "wait_loop rs u 0 s")
  case (Some y)
  from wait_loop_never_aux[OF Some, of "length (requests s)"] assms show ?thesis by simp
qed simp

lemma wait_loop_returns:
  assumes ok: "\<forall>i\<ge>n0. polled_ok (rs i)"
    and tri: "licensed3 rs n"
    and least: "\<forall>k. n0 \<le> k \<and> k < n \<longrightarrow> \<not> licensed3 rs k"
  shows "length (requests s) + d = n + 3 \<Longrightarrow> n0 \<le> length (requests s) \<Longrightarrow>
         c \<le> 3 \<Longrightarrow> c \<le> length (requests s) - n0 \<Longrightarrow>
         (\<forall>i<c. licensed (rs (length (requests s) - Suc i))) \<Longrightarrow>
         (n < length (requests s) \<longrightarrow> length (requests s) - n \<le> c) \<Longrightarrow>
         wait_loop rs u c s =
           Some (Inr (), s\<lparr>requests := requests s @ replicate d \<lparr>verb = GET, uri = u, data = None\<rparr>\<rparr>)"
proof (induction d arbitrary: s c)
  case 0
  then have "\<not> c < 3" by simp
  from wait_loop_done[OF this] show ?case by simp
next
  case (Suc d)
  let ?m = "length (requests s)"
  let ?s' = "s\<lparr>requests := requests s @ [\<lparr>verb = GET, uri = u, data = None\<rparr>]\<rparr>"
  let ?c' = "if licensed (rs ?m) then c + 1 else 0"
  from Suc.prems have m: "?m < n + 3" by simp
  have c3: "c < 3"
  proof (rule ccontr)
    assume "\<not> c < 3"
    then have "3 \<le> c" by simp
    from run_of_three[OF this Suc.prems(4,5)] have "n0 \<le> ?m - 3" "licensed3 rs (?m - 3)"
      by simp_all
    moreover from m \<open>3 \<le> c\<close> Suc.prems(4) have "?m - 3 < n" by arith
    ultimately show False using least by blast
  qed
  from ok Suc.prems(2) have pk: "polled_ok (rs ?m)" by simp
  have lic: "n \<le> ?m \<Longrightarrow> licensed (rs ?m)"
  proof -
    assume "n \<le> ?m"
    with m have "?m = n \<or> ?m = n + 1 \<or> ?m = n + 2" by arith
    with tri show ?thesis by (auto simp: licensed3_def)
  qed
  have "wait_loop rs u ?c' ?s' =
      Some (Inr (), ?s'\<lparr>requests := requests ?s' @ replicate d \<lparr>verb = GET, uri = u, data = None\<rparr>\<rparr>)"
  proof (rule Suc.IH)
    show "length (requests ?s') + d = n + 3" using Suc.prems(1) by simp
    show "n0 \<le> length (requests ?s')" using Suc.prems(2) by simp
    show "?c' \<le> 3" using c3 by simp
    show "?c' \<le> length (requests ?s') - n0" using Suc.prems(2,4) by (simp, arith)
    show "\<forall>i<?c'. licensed (rs (length (requests ?s') - Suc i))"
    proof (intro allI impI)
      fix i assume i: "i < ?c'"
      show "licensed (rs (length (requests ?s') - Suc i))"
      proof (cases i)
        case 0
        with i show ?thesis by (simp split: if_splits)
      next
        case (Suc j)
        with i have "j < c" by (simp split: if_splits)
        with Suc.prems(5) Suc show ?thesis by simp
      qed
    qed
    show "n < length (requests ?s') \<longrightarrow> length (requests ?s') - n \<le> ?c'"
    proof
      assume "n < length (requests ?s')"
      then have nm: "n \<le> ?m" by simp
      from lic[OF nm] have l: "licensed (rs ?m)" .
      from nm Suc.prems(6) have "?m - n \<le> c" by (cases "n < ?m") simp_all
      with l nm show "length (requests ?s') - n \<le> ?c'" by simp
    qed
  qed
  with wait_loop_poll[where rs = rs and s = s and c = c and u = u, OF c3 pk] show ?case by simp
qed

text \<open>
  Claim C1, as the code has it. \<^verbatim>\<open>wait_for_device_to_be_licensed\<close> builds the address of the
  member and polls it. Let every answer to a poll have a code of \<^verbatim>\<open>[200, 201, 202]\<close> and a
  \<^verbatim>\<open>status\<close>. If three answers in a row read \<^verbatim>\<open>'LICENSED'\<close>, and the first such three begin
  with the \<open>n\<close>-th response of the run, the method returns without raising right after
  them: it has polled \<open>n + 3\<close> minus the number of requests sent before the loop times, at
  least three times and with no bound fixed in advance, since every other status sets the
  count back to zero. If no three answers in a row read \<^verbatim>\<open>'LICENSED'\<close>, it never returns.
\<close>

theorem wait_polls_until_three_licensed:
  assumes "member_uri ip rs p s = (Inr u, s0)"
    and "\<forall>i\<ge>length (requests s0). polled_ok (rs i)"
  shows
    "(length (requests s0) \<le> n \<and> licensed3 rs n \<and>
      (\<forall>k. length (requests s0) \<le> k \<and> k < n \<longrightarrow> \<not> licensed3 rs k) \<longrightarrow>
        wait_for_device_to_be_licensed ip rs p s =
          Some (Inr (), s0\<lparr>requests := requests s0 @
            replicate (n + 3 - length (requests s0)) \<lparr>verb = GET, uri = u, data = None\<rparr>\<rparr>)) \<and>
     ((\<forall>k\<ge>length (requests s0). \<not> licensed3 rs k) \<longrightarrow>
        wait_for_device_to_be_licensed ip rs p s = None)"
proof (intro conjI impI)
  assume h: "length (requests s0) \<le> n \<and> licensed3 rs n \<and>
      (\<forall>k. length (requests s0) \<le> k \<and> k < n \<longrightarrow> \<not> licensed3 rs k)"
  have "wait_loop rs u 0 s0 =
      Some (Inr (), s0\<lparr>requests := requests s0 @
        replicate (n + 3 - length (requests s0)) \<lparr>verb = GET, uri = u, data = None\<rparr>\<rparr>)"
  proof (rule wait_loop_returns[where ?n0.0 = "length (requests s0)" and n = n])
    show "\<forall>i\<ge>length (requests s0). polled_ok (rs i)" by (rule assms(2))
    show "licensed3 rs n" using h by simp
    show "\<forall>k. length (requests s0) \<le> k \<and> k < n \<longrightarrow> \<not> licensed3 rs k" using h by simp
    show "length (requests s0) + (n + 3 - length (requests s0)) = n + 3" using h by simp
    show "n < length (requests s0) \<longrightarrow> length (requests s0) - n \<le> 0" using h by simp
  qed simp_all
  with assms(1) show "wait_for_device_to_be_licensed ip rs p s =
      Some (Inr (), s0\<lparr>requests := requests s0 @
        replicate (n + 3 - length (requests s0)) \<lparr>verb = GET, uri = u, data = None\<rparr>\<rparr>)"
    by (simp add: wait_for_device_to_be_licensed_def)
next
  assume "\<forall>k\<ge>length (requests s0). \<not> licensed3 rs k"
  from wait_loop_never[OF assms(2) this, of u] assms(1)
  show "wait_for_device_to_be_licensed ip rs p s = None"
    by (simp add: wait_for_device_to_be_licensed_def)
qed

lemma script_beyond: "length xs \<le> i \<Longrightarrow> script xs d i = d"
  by (simp add: script_def)

lemma never_licensed_after_lookups:
  assumes "polled_ok d" and "\<not> licensed d"
  shows "\<forall>i\<ge>3. polled_ok (script three_lookups d i)"
    and "\<forall>k\<ge>3. \<not> licensed3 (script three_lookups d) k"
  using assms by (simp_all add: script_beyond three_lookups_def licensed3_def)

text \<open>
  The theorem at two runs. In the first the answers to the polls read \<^verbatim>\<open>PENDING\<close>,
  \<^verbatim>\<open>LICENSED\<close>, \<^verbatim>\<open>LICENSED\<close>, \<^verbatim>\<open>PENDING\<close> and then \<^verbatim>\<open>LICENSED\<close> for ever: the method returns
  after seven polls. In the second every answer is a 202 that reads \<^verbatim>\<open>INSTALLING\<close>: the
  method does not return.
\<close>

theorem wait_polls_until_three_licensed_witness:
  "map_option (\<lambda>r. (fst r, map verb (requests (snd r))))
     (wait_for_device_to_be_licensed sample_ip licensed_late (unmanaged_device ''present'')
        init_manager) =
     Some (Inr (), [GET, GET, GET] @ replicate 7 GET) \<and>
   wait_for_device_to_be_licensed sample_ip still_installing (unmanaged_device ''present'')
     init_manager = None"
proof -
  let ?p = "unmanaged_device ''present''"
  let ?s0 = "snd (member_uri sample_ip licensed_late ?p init_manager)"
  have u: "member_uri sample_ip licensed_late ?p init_manager = (Inr sample_member_uri, ?s0)"
    by code_simp
  have len: "length (requests ?s0) = 3" by code_simp
  have vs: "map verb (requests ?s0) = [GET, GET, GET]" by code_simp
  have p3: "polled_ok (licensed_late 3)" "polled_ok (licensed_late 4)"
    "polled_ok (licensed_late 5)" "polled_ok (licensed_late 6)"
    by code_simp+
  have pd: "polled_ok (member_status 200 ''LICENSED'')" by code_simp
  have ok: "\<forall>i\<ge>length (requests ?s0). polled_ok (licensed_late i)"
  proof (intro allI impI)
    fix i assume "length (requests ?s0) \<le> i"
    with len have "i = 3 \<or> i = 4 \<or> i = 5 \<or> i = 6 \<or> 7 \<le> i" by arith
    moreover have "7 \<le> i \<Longrightarrow> licensed_late i = member_status 200 ''LICENSED''"
      by (simp add: licensed_late_def script_beyond three_lookups_def)
    ultimately show "polled_ok (licensed_late i)" using p3 pd by auto
  qed
  have tri: "licensed3 licensed_late 7" by code_simp
  have n3: "\<not> licensed3 licensed_late 3" "\<not> licensed3 licensed_late 4"
    "\<not> licensed3 licensed_late 5" "\<not> licensed3 licensed_late 6"
    by code_simp+
  have least: "\<forall>k. length (requests ?s0) \<le> k \<and> k < 7 \<longrightarrow> \<not> licensed3 licensed_late k"
  proof (intro allI impI)
    fix k assume "length (requests ?s0) \<le> k \<and> k < 7"
    with len have "k = 3 \<or> k = 4 \<or> k = 5 \<or> k = 6" by arith
    with n3 show "\<not> licensed3 licensed_late k" by auto
  qed
  from wait_polls_until_three_licensed[where rs = licensed_late and ip = sample_ip and p = ?p
      and s = init_manager and u = sample_member_uri and ?s0.0 = ?s0 and n = 7, OF u ok]
    len tri least
  have "wait_for_device_to_be_licensed sample_ip licensed_late ?p init_manager =
      Some (Inr (), ?s0\<lparr>requests := requests ?s0 @
        replicate 7 \<lparr>verb = GET, uri = sample_member_uri, data = None\<rparr>\<rparr>)"
    by simp
  with vs have 1: "map_option (\<lambda>r. (fst r, map verb (requests (snd r))))
     (wait_for_device_to_be_licensed sample_ip licensed_late ?p init_manager) =
     Some (Inr (), [GET, GET, GET] @ replicate 7 GET)"
    by simp
  let ?t0 = "snd (member_uri sample_ip still_installing ?p init_manager)"
  have u': "member_uri sample_ip still_installing ?p init_manager = (Inr sample_member_uri, ?t0)"
    by code_simp
  have len': "length (requests ?t0) = 3" by code_simp
  have "polled_ok (member_status 202 ''INSTALLING'')" "\<not> licensed (member_status 202 ''INSTALLING'')"
    by code_simp+
  from never_licensed_after_lookups[OF this]
  have ok': "\<forall>i\<ge>length (requests ?t0). polled_ok (still_installing i)"
    and none': "\<forall>k\<ge>length (requests ?t0). \<not> licensed3 still_installing k"
    unfolding len' unfolding still_installing_def by simp_all
  from wait_polls_until_three_licensed[where rs = still_installing and ip = sample_ip and p = ?p
      and s = init_manager and u = sample_member_uri and ?s0.0 = ?t0, OF u' ok'] none'
  have 2: "wait_for_device_to_be_licensed sample_ip still_installing ?p init_manager = None"
    by blast
  from 1 2 show ?thesis by blast
qed

text \<open>
  Claim C1 as it is worded fails on a device that answers every poll with code 200 and
  the status \<^verbatim>\<open>PENDING\<close>: the loop has no bound on its iterations, and the method never
  returns.
\<close>

theorem wait_always_pending_counterexample:
  "code (member_status 200 ''PENDING'') = 200 \<and>
   wait_for_device_to_be_licensed sample_ip always_pending (unmanaged_device ''present'')
     init_manager = None"
proof -
  let ?p = "unmanaged_device ''present''"
  define s0 where "s0 = snd (member_uri sample_ip always_pending ?p init_manager)"
  have u: "member_uri sample_ip always_pending ?p init_manager = (Inr sample_member_uri, s0)"
    unfolding s0_def by code_simp
  have len: "length (requests s0) = 3"
    unfolding s0_def by code_simp
  have "polled_ok (member_status 200 ''PENDING'')" "\<not> licensed (member_status 200 ''PENDING'')"
    by code_simp+
  from never_licensed_after_lookups[OF this]
  have ok: "\<forall>i\<ge>length (requests s0). polled_ok (always_pending i)"
    and none: "\<forall>k\<ge>length (requests s0). \<not> licensed3 always_pending k"
    unfolding len unfolding always_pending_def by simp_all
  from wait_loop_never[where rs = always_pending and s = s0 and u = sample_member_uri, OF ok none] u
  have "wait_for_device_to_be_licensed sample_ip always_pending ?p init_manager = None"
    by (simp add: wait_for_device_to_be_licensed_def)
  moreover have "code (member_status 200 ''PENDING'') = 200" by code_simp
  ultimately show ?thesis by blast
qed

subsection \<open>Present, and already licensed\<close>

text \<open>
  Claim C2, as the code has it. A run with \<^verbatim>\<open>state=present\<close> for which the assignment
  exists already, that is, the lookup of the member returns an identifier and the \<^verbatim>\<open>GET\<close>
  of the member is answered by code 200, 201 or 202, returns \<^verbatim>\<open>changed=False\<close> and sends
  \<^verbatim>\<open>GET\<close> requests only, hence no \<^verbatim>\<open>POST\<close>. This holds in check mode and out of it.
\<close>

theorem present_licensed_unchanged:
  assumes "state p = ''present''"
    and "member_id ip rs p s = (Inr mid, t1)"
    and "mid \<noteq> JNull"
    and "member_uri ip rs p t1 = (Inr u, t2)"
    and "code (rs (length (requests t2))) \<in> {200, 201, 202}"
  shows "\<exists>res s'. exec_module ip ap rs check_mode p s = Some (Inr res, s') \<and>
           \<not> changed res \<and> only_gets s s'"
proof -
  have "code (rs (length (requests t2))) \<noteq> 404"
    using assms(5) by auto
  with assms obtain s' where e: "exists ip rs p s = (Inr True, s')"
    using exists_member_get[of ip rs p s mid t1 u t2] by simp
  with only_gets_exists[of s ip rs p] have g: "only_gets s s'" by simp
  from exec_module_present_exists[OF assms(1) e, of ap check_mode] g
  show ?thesis by simp
qed

theorem present_licensed_unchanged_witness:
  "\<exists>res s'. exec_module sample_ip sample_api_params
      (script (lookups_found @ [member_status 200 ''LICENSED'']) nothing_found) False
      (unmanaged_device ''present'') init_manager = Some (Inr res, s') \<and>
    \<not> changed res \<and> only_gets init_manager s'"
proof -
  let ?p = "unmanaged_device ''present''"
  let ?rs = "script (lookups_found @ [member_status 200 ''LICENSED'']) nothing_found"
  let ?t1 = "snd (member_id sample_ip ?rs ?p init_manager)"
  let ?t2 = "snd (member_uri sample_ip ?rs ?p ?t1)"
  have st: "state ?p = ''present''" by code_simp
  have a: "member_id sample_ip ?rs ?p init_manager = (Inr (JStr ''m1''), ?t1)"
    by code_simp
  have n: "JStr ''m1'' \<noteq> JNull" by simp
  have b: "member_uri sample_ip ?rs ?p ?t1 = (Inr sample_member_uri, ?t2)"
    by code_simp
  have "code (?rs (length (requests ?t2))) = 200"
    by code_simp
  then have c: "code (?rs (length (requests ?t2))) \<in> {200, 201, 202}"
    by simp
  show ?thesis
    by (rule present_licensed_unchanged[OF st a n b c])
qed

text \<open>
  Claim C2 as it is worded fails on the code 204, which is a 2xx code: the member is
  found, the \<^verbatim>\<open>GET\<close> of the member, the sixth request of the run, is answered by 204, and
  the run ends there with an \<^verbatim>\<open>F5ModuleError\<close> instead of returning \<^verbatim>\<open>changed=False\<close>.
\<close>

theorem present_204_counterexample:
  "code (member_status 204 ''LICENSED'') = 204 \<and>
   map_option fst (exec_module sample_ip sample_api_params
      (script (lookups_found @ [member_status 204 ''LICENSED'']) nothing_found) False
      (unmanaged_device ''present'') init_manager) =
     Some (Inl (F5ModuleError (FJson (JObj [(''status'', JStr ''LICENSED'')])))) \<and>
   map_option (map verb \<circ> requests \<circ> snd) (exec_module sample_ip sample_api_params
      (script (lookups_found @ [member_status 204 ''LICENSED'']) nothing_found) False
      (unmanaged_device ''present'') init_manager) =
     Some [GET, GET, GET, GET, GET, GET]"
  by code_simp

subsection \<open>Absent, and nothing to remove\<close>

text \<open>
  Claim C3. A run with \<^verbatim>\<open>state=absent\<close> for which no assignment exists returns
  \<^verbatim>\<open>changed=False\<close> and sends \<^verbatim>\<open>GET\<close> requests only, hence no \<^verbatim>\<open>DELETE\<close>. No assignment
  exists when the filtered query for the member, which follows the lookup of the offering,
  is answered by code 200 with \<^verbatim>\<open>totalItems == 0\<close>, or when the member is found and the
  \<^verbatim>\<open>GET\<close> of the member is answered by code 404. This holds in check mode and out of it.
\<close>

theorem absent_unlicensed_unchanged:
  assumes "state p = ''absent''"
  shows
    "(offering_id rs p s = (Inr oid, s1) \<and> no_items (rs (length (requests s1))) = Inr True \<longrightarrow>
        (\<exists>res s'. exec_module ip ap rs check_mode p s = Some (Inr res, s') \<and>
           \<not> changed res \<and> only_gets s s')) \<and>
     (member_id ip rs p s = (Inr mid, t1) \<and> mid \<noteq> JNull \<and>
      member_uri ip rs p t1 = (Inr u, t2) \<and>
      code (rs (length (requests t2))) = 404 \<longrightarrow>
        (\<exists>res s'. exec_module ip ap rs check_mode p s = Some (Inr res, s') \<and>
           \<not> changed res \<and> only_gets s s'))"
proof (intro conjI impI)
  assume "offering_id rs p s = (Inr oid, s1) \<and> no_items (rs (length (requests s1))) = Inr True"
  then obtain s' where e: "exists ip rs p s = (Inr False, s')" and g: "only_gets s s'"
    using exists_empty[of rs p s oid s1 ip] by blast
  from exec_module_absent_not_exists[OF assms e, of ap check_mode] g
  show "\<exists>res s'. exec_module ip ap rs check_mode p s = Some (Inr res, s') \<and>
          \<not> changed res \<and> only_gets s s'"
    by simp
next
  assume h: "member_id ip rs p s = (Inr mid, t1) \<and> mid \<noteq> JNull \<and>
      member_uri ip rs p t1 = (Inr u, t2) \<and>
      code (rs (length (requests t2))) = 404"
  then obtain s' where e: "exists ip rs p s = (Inr False, s')"
    using exists_member_get[of ip rs p s mid t1 u t2] by simp
  with only_gets_exists[of s ip rs p] have g: "only_gets s s'" by simp
  from exec_module_absent_not_exists[OF assms e, of ap check_mode] g
  show "\<exists>res s'. exec_module ip ap rs check_mode p s = Some (Inr res, s') \<and>
          \<not> changed res \<and> only_gets s s'"
    by simp
qed

text \<open>
  The theorem at two runs: the member is not found; the member is found and its \<^verbatim>\<open>GET\<close>
  is answered by 404.
\<close>

theorem absent_unlicensed_unchanged_witness:
  "(\<exists>res s'. exec_module sample_ip sample_api_params
        (script [found ''o1'', nothing_found] nothing_found) False
        (unmanaged_device ''absent'') init_manager = Some (Inr res, s') \<and>
      \<not> changed res \<and> only_gets init_manager s') \<and>
   (\<exists>res s'. exec_module sample_ip sample_api_params
        (script (lookups_found @ [member_status 404 ''GONE'']) nothing_found) False
        (unmanaged_device ''absent'') init_manager = Some (Inr res, s') \<and>
      \<not> changed res \<and> only_gets init_manager s')"
proof -
  let ?p = "unmanaged_device ''absent''"
  let ?rs1 = "script [found ''o1'', nothing_found] nothing_found"
  let ?rs2 = "script (lookups_found @ [member_status 404 ''GONE'']) nothing_found"
  have st: "state ?p = ''absent''" by code_simp
  let ?s1 = "snd (offering_id ?rs1 ?p init_manager)"
  have a: "offering_id ?rs1 ?p init_manager = (Inr (JStr ''o1''), ?s1)"
    "no_items (?rs1 (length (requests ?s1))) = Inr True"
    by code_simp+
  let ?t1 = "snd (member_id sample_ip ?rs2 ?p init_manager)"
  let ?t2 = "snd (member_uri sample_ip ?rs2 ?p ?t1)"
  have b: "member_id sample_ip ?rs2 ?p init_manager = (Inr (JStr ''m1''), ?t1)"
    "JStr ''m1'' \<noteq> JNull"
    "member_uri sample_ip ?rs2 ?p ?t1 = (Inr sample_member_uri, ?t2)"
    "code (?rs2 (length (requests ?t2))) = 404"
    by code_simp+
  from a absent_unlicensed_unchanged[OF st, where rs = ?rs1 and s = init_manager
      and oid = "JStr ''o1''" and ?s1.0 = ?s1 and ip = sample_ip and ap = sample_api_params
      and check_mode = False]
  have 1: "\<exists>res s'. exec_module sample_ip sample_api_params ?rs1 False ?p init_manager =
      Some (Inr res, s') \<and> \<not> changed res \<and> only_gets init_manager s'"
    by blast
  from b absent_unlicensed_unchanged[OF st, where rs = ?rs2 and s = init_manager
      and mid = "JStr ''m1''" and ?t1.0 = ?t1 and u = sample_member_uri and ?t2.0 = ?t2
      and ip = sample_ip and ap = sample_api_params and check_mode = False]
  have 2: "\<exists>res s'. exec_module sample_ip sample_api_params ?rs2 False ?p init_manager =
      Some (Inr res, s') \<and> \<not> changed res \<and> only_gets init_manager s'"
    by blast
  from 1 2 show ?thesis by blast
qed

subsection \<open>Responses that are not accepted\<close>

lemma create_on_device_refused:
  assumes "offering_id rs p s = (Inr oid, s1)"
    and "bad_code (rs (length (requests s1)))"
  shows "fst (create_on_device ap rs p s) =
           Inl (F5ModuleError (FJson (contents (rs (length (requests s1))))))"
  using assms
  by (simp add: create_on_device_def io_bind_def Let_def client_post_def client_call_def)

text \<open>
  Claim C4 does not hold of \<^verbatim>\<open>remove_from_device\<close>. \<^verbatim>\<open>create_on_device\<close> raises on a
  \<^verbatim>\<open>POST\<close> that is answered by a code outside \<^verbatim>\<open>[200, 201, 202]\<close>, as the lookups do, but
  the response to the \<^verbatim>\<open>DELETE\<close> is never looked at. In the run below the \<^verbatim>\<open>DELETE\<close>, the
  twelfth request, is answered by code 500; the run goes on with the two lookups of
  \<^verbatim>\<open>exists\<close>, which find no member, and returns \<^verbatim>\<open>changed=True\<close> with no error.
\<close>

theorem delete_response_ignored:
  "code (delete_refused 11) = 500 \<and>
   map_option (map verb \<circ> requests \<circ> snd)
     (exec_module sample_ip sample_api_params delete_refused False (unmanaged_device ''absent'')
        init_manager) =
     Some [GET, GET, GET, GET, GET, GET, GET, GET, GET, GET, GET, DELETE, GET, GET] \<and>
   map_option (map_sum id changed \<circ> fst)
     (exec_module sample_ip sample_api_params delete_refused False (unmanaged_device ''absent'')
        init_manager) =
     Some (Inr True)"
  by code_simp

subsection \<open>Unmanaged devices without credentials\<close>

lemma set_changed_options_unmanaged:
  assumes "\<not> truthy (managed p)"
  shows "\<exists>c. set_changed_options ip rs p s = (Inr (), s\<lparr>changes := c\<rparr>)"
proof -
  have d: "device_reference ip rs p s = (Inr None, s)"
    using assms by (simp add: device_reference_def)
  have a: "\<exists>c. (Inr (), s) = (Inr (), s\<lparr>changes := c\<rparr>)"
    by (rule exI[of _ "changes s"]) simp
  show ?thesis
    using d a by (auto simp: set_changed_options_def io_bind_def Let_def)
qed

lemma create_without_credentials:
  assumes "\<not> truthy (managed p)"
    and "device_username p = None \<or> device_password p = None"
  shows "\<exists>c. create ip ap rs check_mode p s =
           Some (Inl (F5ModuleError (Lit
             (if device_username p = None
              then ''You must specify a 'device_username' when working with unmanaged devices.''
              else ''You must specify a 'device_password' when working with unmanaged devices.''))),
             s\<lparr>changes := c\<rparr>)"
proof -
  obtain c where "set_changed_options ip rs p s = (Inr (), s\<lparr>changes := c\<rparr>)"
    using set_changed_options_unmanaged[OF assms(1)] by blast
  with assms show ?thesis
    by (auto simp: create_def)
qed

text \<open>
  Claim C5, as the code has it. A run with \<^verbatim>\<open>state=present\<close> for an unmanaged device
  (\<^verbatim>\<open>managed\<close> false or missing) with no \<^verbatim>\<open>device_username\<close> or no \<^verbatim>\<open>device_password\<close> always
  ends, and sends \<^verbatim>\<open>GET\<close> requests only: no \<^verbatim>\<open>POST\<close>, no \<^verbatim>\<open>DELETE\<close>. It starts with the
  lookups of \<^verbatim>\<open>exists\<close>; the credentials are checked by \<^verbatim>\<open>create\<close>, after them. When
  \<^verbatim>\<open>exists\<close> raises, so does the run; when \<^verbatim>\<open>exists\<close> returns \<^verbatim>\<open>True\<close>, the run returns
  \<^verbatim>\<open>changed=False\<close>; when it returns \<^verbatim>\<open>False\<close>, the run fails with the \<^verbatim>\<open>F5ModuleError\<close>
  "You must specify a 'device_username' ..." (or \<^verbatim>\<open>'device_password'\<close>) without sending
  any further request.
\<close>

theorem present_without_credentials:
  assumes "state p = ''present''"
    and "\<not> truthy (managed p)"
    and "device_username p = None \<or> device_password p = None"
  shows "\<exists>r s'. exec_module ip ap rs check_mode p s = Some (r, s') \<and> only_gets s s' \<and>
           requests s' = requests (snd (exists ip rs p s)) \<and>
           (case fst (exists ip rs p s) of
              Inl e \<Rightarrow> r = Inl e
            | Inr b \<Rightarrow>
                if b then map_sum id changed r = Inr False
                else r = Inl (F5ModuleError (Lit
                  (if device_username p = None
                   then ''You must specify a 'device_username' when working with unmanaged devices.''
                   else ''You must specify a 'device_password' when working with unmanaged devices.''))))"
proof -
  obtain x s1 where e: "exists ip rs p s = (x, s1)" by (cases "exists ip rs p s")
  with only_gets_exists[of s ip rs p] have g: "only_gets s s1" by simp
  show ?thesis
  proof (cases x)
    case (Inl err)
    with e exec_module_exists_raises[of p ip rs s err s1 ap check_mode] assms(1) g
    show ?thesis by simp
  next
    case (Inr b)
    show ?thesis
    proof (cases b)
      case True
      with e Inr exec_module_present_exists[OF assms(1), of ip rs s s1 ap check_mode] g
      show ?thesis by simp
    next
      case False
      obtain c where "create ip ap rs check_mode p s1 =
           Some (Inl (F5ModuleError (Lit
             (if device_username p = None
              then ''You must specify a 'device_username' when working with unmanaged devices.''
              else ''You must specify a 'device_password' when working with unmanaged devices.''))),
             s1\<lparr>changes := c\<rparr>)"
        using create_without_credentials[OF assms(2,3)] by blast
      with e Inr False assms(1) g show ?thesis
        by (simp add: exec_module_def present_def run_bind_def)
    qed
  qed
qed

text \<open>
  The theorem at a run where the member is not found: the parameters are those of an
  unmanaged device with a password and no user name.
\<close>

theorem present_without_credentials_witness:
  "\<exists>s'. exec_module sample_ip sample_api_params
      (script [found ''o1'', nothing_found] nothing_found) False
      ((unmanaged_device ''present'')\<lparr>device_username := None\<rparr>) init_manager =
    Some (Inl (F5ModuleError (Lit
      ''You must specify a 'device_username' when working with unmanaged devices.'')), s') \<and>
    only_gets init_manager s'"
proof -
  let ?p = "(unmanaged_device ''present'')\<lparr>device_username := None\<rparr>"
  let ?rs = "script [found ''o1'', nothing_found] nothing_found"
  have a: "state ?p = ''present''" "\<not> truthy (managed ?p)"
    by code_simp+
  have "device_username ?p = None" by code_simp
  then have b: "device_username ?p = None \<or> device_password ?p = None" by simp
  have x: "fst (exists sample_ip ?rs ?p init_manager) = Inr False" by code_simp
  from present_without_credentials[OF a b, of sample_ip sample_api_params ?rs False init_manager]
    x \<open>device_username ?p = None\<close>
  show ?thesis by auto
qed

text \<open>
  Claim C5 as it is worded fails on that run: the module does fail with the
  \<^verbatim>\<open>F5ModuleError\<close> of the validation, but only after it has sent the two \<^verbatim>\<open>GET\<close> requests
  of the lookups.
\<close>

theorem present_without_credentials_counterexample:
  "map_option fst (exec_module sample_ip sample_api_params
      (script [found ''o1'', nothing_found] nothing_found) False
      ((unmanaged_device ''present'')\<lparr>device_username := None\<rparr>) init_manager) =
    Some (Inl (F5ModuleError (Lit
      ''You must specify a 'device_username' when working with unmanaged devices.''))) \<and>
   map_option (map verb \<circ> requests \<circ> snd) (exec_module sample_ip sample_api_params
      (script [found ''o1'', nothing_found] nothing_found) False
      ((unmanaged_device ''present'')\<lparr>device_username := None\<rparr>) init_manager) =
    Some [GET, GET]"
  by code_simp

subsection \<open>When an assignment exists\<close>

text \<open>
  Claim C6, as the code has it. \<^verbatim>\<open>exists\<close> returns \<^verbatim>\<open>False\<close> when the first filtered
  query for the member, sent after a successful lookup of the offering, is answered by
  code 200 with \<^verbatim>\<open>totalItems == 0\<close>, and when the \<^verbatim>\<open>GET\<close> of the member is answered by
  code 404; it returns \<^verbatim>\<open>True\<close> when that \<^verbatim>\<open>GET\<close> is answered by code 200, 201 or 202, and
  raises \<^verbatim>\<open>F5ModuleError\<close> with the contents of the response on every other code.
  Conversely \<^verbatim>\<open>True\<close> is returned only on 200, 201 or 202, and \<^verbatim>\<open>False\<close> only in those two
  cases, the first of which includes a first listed member whose \<^verbatim>\<open>id\<close> is \<^verbatim>\<open>null\<close>: it
  reads as \<^verbatim>\<open>None\<close>, as if no member were found.
\<close>

theorem exists_characterised:
  "(offering_id rs p s = (Inr oid, s1) \<and> no_items (rs (length (requests s1))) = Inr True \<longrightarrow>
      fst (exists ip rs p s) = Inr False) \<and>
   (member_id ip rs p s = (Inr mid, s1') \<and> mid \<noteq> JNull \<and>
      member_uri ip rs p s1' = (Inr u, s2) \<longrightarrow>
      exists ip rs p s =
        ((if code (rs (length (requests s2))) = 404 then Inr False
          else if code (rs (length (requests s2))) \<in> {200, 201, 202} then Inr True
          else Inl (F5ModuleError (FJson (contents (rs (length (requests s2))))))),
         s2\<lparr>requests := requests s2 @ [\<lparr>verb = GET, uri = u, data = None\<rparr>]\<rparr>)) \<and>
   (fst (exists ip rs p s) = Inr False \<longrightarrow>
      (\<exists>oid s1. offering_id rs p s = (Inr oid, s1) \<and>
         (no_items (rs (length (requests s1))) = Inr True \<or>
          first_item (rs (length (requests s1))) ''id'' = Inr JNull)) \<or>
      (\<exists>mid s1 u s2. member_id ip rs p s = (Inr mid, s1) \<and> mid \<noteq> JNull \<and>
         member_uri ip rs p s1 = (Inr u, s2) \<and> code (rs (length (requests s2))) = 404)) \<and>
   (fst (exists ip rs p s) = Inr True \<longrightarrow>
      (\<exists>mid s1 u s2. member_id ip rs p s = (Inr mid, s1) \<and> mid \<noteq> JNull \<and>
         member_uri ip rs p s1 = (Inr u, s2) \<and>
         code (rs (length (requests s2))) \<in> {200, 201, 202}))"
proof (intro conjI impI)
  assume "offering_id rs p s = (Inr oid, s1) \<and> no_items (rs (length (requests s1))) = Inr True"
  then show "fst (exists ip rs p s) = Inr False"
    using exists_empty[of rs p s oid s1 ip] by auto
next
  assume "member_id ip rs p s = (Inr mid, s1') \<and> mid \<noteq> JNull \<and>
      member_uri ip rs p s1' = (Inr u, s2)"
  then show "exists ip rs p s =
        ((if code (rs (length (requests s2))) = 404 then Inr False
          else if code (rs (length (requests s2))) \<in> {200, 201, 202} then Inr True
          else Inl (F5ModuleError (FJson (contents (rs (length (requests s2))))))),
         s2\<lparr>requests := requests s2 @ [\<lparr>verb = GET, uri = u, data = None\<rparr>]\<rparr>)"
    using exists_member_get[of ip rs p s mid s1' u s2] by blast
next
  assume "fst (exists ip rs p s) = Inr False"
  then show "(\<exists>oid s1. offering_id rs p s = (Inr oid, s1) \<and>
         (no_items (rs (length (requests s1))) = Inr True \<or>
          first_item (rs (length (requests s1))) ''id'' = Inr JNull)) \<or>
      (\<exists>mid s1 u s2. member_id ip rs p s = (Inr mid, s1) \<and> mid \<noteq> JNull \<and>
         member_uri ip rs p s1 = (Inr u, s2) \<and> code (rs (length (requests s2))) = 404)"
    by (rule exists_False_cases)
next
  assume "fst (exists ip rs p s) = Inr True"
  then show "\<exists>mid s1 u s2. member_id ip rs p s = (Inr mid, s1) \<and> mid \<noteq> JNull \<and>
         member_uri ip rs p s1 = (Inr u, s2) \<and>
         code (rs (length (requests s2))) \<in> {200, 201, 202}"
    by (rule exists_True_cases)
qed

text \<open>
  The theorem at three runs: no member is found; the member is found and its \<^verbatim>\<open>GET\<close> is
  answered by 404; the member is found and its \<^verbatim>\<open>GET\<close> is answered by 201.
\<close>

theorem exists_characterised_witness:
  "fst (exists sample_ip (script [found ''o1'', nothing_found] nothing_found)
          (unmanaged_device ''present'') init_manager) = Inr False \<and>
   fst (exists sample_ip (script (lookups_found @ [member_status 404 ''GONE'']) nothing_found)
          (unmanaged_device ''present'') init_manager) = Inr False \<and>
   fst (exists sample_ip (script (lookups_found @ [member_status 201 ''LICENSED'']) nothing_found)
          (unmanaged_device ''present'') init_manager) = Inr True"
proof -
  let ?p = "unmanaged_device ''present''"
  let ?rs1 = "script [found ''o1'', nothing_found] nothing_found"
  let ?rs2 = "script (lookups_found @ [member_status 404 ''GONE'']) nothing_found"
  let ?rs3 = "script (lookups_found @ [member_status 201 ''LICENSED'']) nothing_found"
  let ?s1 = "snd (offering_id ?rs1 ?p init_manager)"
  have "offering_id ?rs1 ?p init_manager = (Inr (JStr ''o1''), ?s1)"
    and "no_items (?rs1 (length (requests ?s1))) = Inr True"
    by code_simp+
  then have a: "fst (exists sample_ip ?rs1 ?p init_manager) = Inr False"
    using exists_characterised[where rs = ?rs1 and p = ?p and s = init_manager and ip = sample_ip
        and oid = "JStr ''o1''" and ?s1.0 = ?s1]
    by blast
  let ?t1 = "snd (member_id sample_ip ?rs2 ?p init_manager)"
  let ?t2 = "snd (member_uri sample_ip ?rs2 ?p ?t1)"
  have "member_id sample_ip ?rs2 ?p init_manager = (Inr (JStr ''m1''), ?t1)"
    and "JStr ''m1'' \<noteq> JNull"
    and "member_uri sample_ip ?rs2 ?p ?t1 = (Inr sample_member_uri, ?t2)"
    and "code (?rs2 (length (requests ?t2))) = 404"
    by code_simp+
  then have b: "fst (exists sample_ip ?rs2 ?p init_manager) = Inr False"
    using exists_characterised[where rs = ?rs2 and p = ?p and s = init_manager and ip = sample_ip
        and mid = "JStr ''m1''" and s1' = ?t1 and u = sample_member_uri and ?s2.0 = ?t2]
    by simp
  let ?v1 = "snd (member_id sample_ip ?rs3 ?p init_manager)"
  let ?v2 = "snd (member_uri sample_ip ?rs3 ?p ?v1)"
  have "member_id sample_ip ?rs3 ?p init_manager = (Inr (JStr ''m1''), ?v1)"
    and "JStr ''m1'' \<noteq> JNull"
    and "member_uri sample_ip ?rs3 ?p ?v1 = (Inr sample_member_uri, ?v2)"
    and "code (?rs3 (length (requests ?v2))) = 201"
    by code_simp+
  then have c: "fst (exists sample_ip ?rs3 ?p init_manager) = Inr True"
    using exists_characterised[where rs = ?rs3 and p = ?p and s = init_manager and ip = sample_ip
        and mid = "JStr ''m1''" and s1' = ?v1 and u = sample_member_uri and ?s2.0 = ?v2]
    by simp
  from a b c show ?thesis by blast
qed

text \<open>
  Claim C6 as it is worded fails on the code 204, which is a 2xx code: the sixth request
  of the run is the \<^verbatim>\<open>GET\<close> of the member, it is answered by 204, and \<^verbatim>\<open>exists\<close> raises
  instead of returning \<^verbatim>\<open>True\<close>.
\<close>

theorem exists_204_counterexample:
  "code (member_status 204 ''LICENSED'') = 204 \<and>
   fst (exists sample_ip (script (lookups_found @ [member_status 204 ''LICENSED'']) nothing_found)
          (unmanaged_device ''present'') init_manager) =
     Inl (F5ModuleError (FJson (JObj [(''status'', JStr ''LICENSED'')]))) \<and>
   length (requests (snd (exists sample_ip
     (script (lookups_found @ [member_status 204 ''LICENSED'']) nothing_found)
     (unmanaged_device ''present'') init_manager))) = 6 \<and>
   last (requests (snd (exists sample_ip
     (script (lookups_found @ [member_status 204 ''LICENSED'']) nothing_found)
     (unmanaged_device ''present'') init_manager))) =
     \<lparr>verb = GET, uri = sample_member_uri, data = None\<rparr>"
  by code_simp

subsection \<open>Check mode\<close>

lemma create_in_check_mode:
  "create ip ap rs True p s =
     Some (case fst (set_changed_options ip rs p s) of
             Inl e \<Rightarrow> Inl e
           | Inr u \<Rightarrow>
               if \<not> truthy (managed p) \<and> device_username p = None
               then Inl (F5ModuleError (Lit
                 ''You must specify a 'device_username' when working with unmanaged devices.''))
               else if \<not> truthy (managed p) \<and> device_password p = None
               then Inl (F5ModuleError (Lit
                 ''You must specify a 'device_password' when working with unmanaged devices.''))
               else Inr True,
           snd (set_changed_options ip rs p s))"
proof (cases "set_changed_options ip rs p s")
  case (Pair x s1)
  then show ?thesis
    by (cases x) (simp_all add: create_def run_bind_def)
qed

lemma remove_in_check_mode:
  "remove ip ap rs True p s =
     (case fst (set_changed_options ip rs p s) of Inl e \<Rightarrow> Inl e | Inr u \<Rightarrow> Inr True,
      snd (set_changed_options ip rs p s))"
proof (cases "set_changed_options ip rs p s")
  case (Pair x s1)
  then show ?thesis
    by (cases x) (simp_all add: remove_def io_bind_def)
qed

text \<open>
  Claim C7. In check mode \<^verbatim>\<open>create\<close> and \<^verbatim>\<open>remove\<close> return \<^verbatim>\<open>True\<close> before they call
  \<^verbatim>\<open>create_on_device\<close> or \<^verbatim>\<open>remove_from_device\<close>: each of them ends in the state that
  \<^verbatim>\<open>_set_changed_options\<close> leaves, having sent \<^verbatim>\<open>GET\<close> requests only, and either returns
  \<^verbatim>\<open>True\<close> or raises. \<^verbatim>\<open>remove\<close> returns \<^verbatim>\<open>True\<close> exactly when \<^verbatim>\<open>_set_changed_options\<close>
  does not raise, and \<^verbatim>\<open>create\<close> exactly when moreover the device is managed or comes
  with a user name and a password. So a run in check mode sends no mutating request:
  whatever the parameters and whatever the device answers, \<^verbatim>\<open>exec_module\<close> returns or
  raises after \<^verbatim>\<open>GET\<close> requests only, and neither the \<^verbatim>\<open>POST\<close> of \<^verbatim>\<open>create_on_device\<close> nor
  the \<^verbatim>\<open>DELETE\<close> of \<^verbatim>\<open>remove_from_device\<close> is ever sent.
\<close>

theorem check_mode_sends_only_gets:
  "(\<exists>r. create ip ap rs True p s = Some (r, snd (set_changed_options ip rs p s)) \<and>
        (r = Inr True \<or> (\<exists>e. r = Inl e)) \<and>
        ((r = Inr True) =
         (fst (set_changed_options ip rs p s) = Inr () \<and>
          (truthy (managed p) \<or> device_username p \<noteq> None \<and> device_password p \<noteq> None)))) \<and>
   (\<exists>r. remove ip ap rs True p s = (r, snd (set_changed_options ip rs p s)) \<and>
        (r = Inr True \<or> (\<exists>e. r = Inl e)) \<and>
        ((r = Inr True) = (fst (set_changed_options ip rs p s) = Inr ()))) \<and>
   only_gets s (snd (set_changed_options ip rs p s)) \<and>
   (\<exists>r s'. exec_module ip ap rs True p s = Some (r, s') \<and> only_gets s s')"
proof (intro conjI)
  show "\<exists>r. create ip ap rs True p s = Some (r, snd (set_changed_options ip rs p s)) \<and>
        (r = Inr True \<or> (\<exists>e. r = Inl e)) \<and>
        ((r = Inr True) =
         (fst (set_changed_options ip rs p s) = Inr () \<and>
          (truthy (managed p) \<or> device_username p \<noteq> None \<and> device_password p \<noteq> None)))"
    unfolding create_in_check_mode
    by (cases "fst (set_changed_options ip rs p s)") auto
  show "\<exists>r. remove ip ap rs True p s = (r, snd (set_changed_options ip rs p s)) \<and>
        (r = Inr True \<or> (\<exists>e. r = Inl e)) \<and>
        ((r = Inr True) = (fst (set_changed_options ip rs p s) = Inr ()))"
    unfolding remove_in_check_mode
    by (cases "fst (set_changed_options ip rs p s)") auto
  show "only_gets s (snd (set_changed_options ip rs p s))"
    using io_gets_set_changed_options by (simp add: io_gets_def)
  consider (pres) "state p = ''present''" | (abs) "state p \<noteq> ''present''" "state p = ''absent''"
    | (other) "state p \<noteq> ''present''" "state p \<noteq> ''absent''" by blast
  then show "\<exists>r s'. exec_module ip ap rs True p s = Some (r, s') \<and> only_gets s s'"
  proof cases
    case pres
    obtain r s' where "present ip ap rs True p s = Some (r, s')" "only_gets s s'"
      using present_check_mode by blast
    with pres show ?thesis
      by (cases r) (simp_all add: exec_module_def run_bind_def)
  next
    case abs
    obtain r s' where a: "absent ip ap rs True p s = (r, s')" by (cases "absent ip ap rs True p s")
    with absent_check_mode[of s ip ap rs p] have "only_gets s s'" by simp
    with abs a show ?thesis
      by (cases r) (simp_all add: exec_module_def)
  next
    case other
    then show ?thesis by (simp add: exec_module_def)
  qed
qed

text \<open>
  The theorem at the parameters of an unmanaged device with its credentials: in check
  mode \<^verbatim>\<open>create\<close> and \<^verbatim>\<open>remove\<close> return \<^verbatim>\<open>True\<close> and send no request at all.
\<close>

theorem check_mode_sends_only_gets_witness:
  "create sample_ip sample_api_params (script [] nothing_found) True
      (unmanaged_device ''present'') init_manager =
     Some (Inr True,
       snd (set_changed_options sample_ip (script [] nothing_found)
              (unmanaged_device ''present'') init_manager)) \<and>
   remove sample_ip sample_api_params (script [] nothing_found) True
      (unmanaged_device ''absent'') init_manager =
     (Inr True,
       snd (set_changed_options sample_ip (script [] nothing_found)
              (unmanaged_device ''absent'') init_manager)) \<and>
   requests (snd (set_changed_options sample_ip (script [] nothing_found)
              (unmanaged_device ''present'') init_manager)) = []"
proof -
  let ?rs = "script [] nothing_found"
  let ?p = "unmanaged_device ''present''"
  let ?q = "unmanaged_device ''absent''"
  have a: "fst (set_changed_options sample_ip ?rs ?p init_manager) = Inr ()"
    "device_username ?p \<noteq> None" "device_password ?p \<noteq> None"
    by code_simp+
  have b: "fst (set_changed_options sample_ip ?rs ?q init_manager) = Inr ()"
    by code_simp
  have c: "requests (snd (set_changed_options sample_ip ?rs ?p init_manager)) = []"
    by code_simp
  from check_mode_sends_only_gets[of sample_ip sample_api_params ?rs ?p init_manager] a
  have x: "create sample_ip sample_api_params ?rs True ?p init_manager =
     Some (Inr True, snd (set_changed_options sample_ip ?rs ?p init_manager))"
    by auto
  from check_mode_sends_only_gets[of sample_ip sample_api_params ?rs ?q init_manager] b
  have y: "remove sample_ip sample_api_params ?rs True ?q init_manager =
     (Inr True, snd (set_changed_options sample_ip ?rs ?q init_manager))"
    by auto
  from x y c show ?thesis by simp
qed

subsection \<open>The two field groups of a change set\<close>

text \<open>
  The properties of \<^verbatim>\<open>UsableChanges\<close> keep the two groups apart: when the stored
  \<^verbatim>\<open>managed\<close> is truthy, \<^verbatim>\<open>device_port\<close>, \<^verbatim>\<open>device_username\<close>, \<^verbatim>\<open>device_password\<close> and
  \<^verbatim>\<open>device_address\<close> read as \<^verbatim>\<open>None\<close>; when it is falsy, \<^verbatim>\<open>device_reference\<close> reads as
  \<^verbatim>\<open>None\<close>. A \<^verbatim>\<open>UsableChanges\<close> object never reads both groups, and the empty one that
  \<^verbatim>\<open>ModuleManager.__init__\<close> builds reads neither.
\<close>

lemma usable_getters_exclusive:
  "(truthy (v_managed v) \<longrightarrow>
      usable_device_port v = None \<and> usable_device_username v = None \<and>
      usable_device_password v = None \<and> usable_device_address v = None \<and>
      usable_device_reference v = v_device_reference v) \<and>
   (\<not> truthy (v_managed v) \<longrightarrow> usable_device_reference v = None) \<and>
   usable_managed v = None \<and>
   \<not> (managed_group_populated v \<and> unmanaged_group_populated v)"
  by (simp add: usable_device_port_def usable_device_username_def usable_device_password_def
      usable_device_address_def usable_device_reference_def usable_managed_def
      managed_group_populated_def unmanaged_group_populated_def)

lemma reads_groups_usable:
  "reads_managed_group (UsableChanges v) = managed_group_populated v"
  "reads_unmanaged_group (UsableChanges v) = unmanaged_group_populated v"
  by (simp_all add: reads_managed_group_def reads_unmanaged_group_def
      managed_group_populated_def unmanaged_group_populated_def)

lemma usable_changes_never_both:
  "\<not> (reads_managed_group (UsableChanges v) \<and> reads_unmanaged_group (UsableChanges v))"
  using usable_getters_exclusive[of v] by (simp add: reads_groups_usable)

lemma usable_changes_empty:
  "changes init_manager = UsableChanges no_values \<and>
   \<not> reads_managed_group (UsableChanges no_values) \<and>
   \<not> reads_unmanaged_group (UsableChanges no_values)"
  by (simp add: init_manager_def reads_groups_usable managed_group_populated_def
      unmanaged_group_populated_def no_values_def usable_device_port_def
      usable_device_username_def usable_device_password_def usable_device_address_def
      usable_device_reference_def)

text \<open>
  \<^verbatim>\<open>_set_changed_options\<close> does not build a \<^verbatim>\<open>UsableChanges\<close>: what it stores is a plain
  \<^verbatim>\<open>Changes\<close>, which reads every value as stored. For a managed device that is given by
  its address it stores the reference of the device together with the address.
\<close>

lemma device_reference_managed:
  assumes "truthy (managed p)" and "device_reference ip rs p s = (Inr r, s')"
  shows "r \<noteq> None"
  using assms
  by (auto simp: device_reference_def io_bind_def io_return_def io_raise_def io_lift_def
      split: if_splits prod.splits sum.splits)

lemma set_changed_options_managed_address:
  assumes "truthy (managed p)" and "device_is_address ip p"
    and "set_changed_options ip rs p s = (Inr (), s')"
  shows "\<exists>v. changes s' = Changes v \<and> v_device_address v = Some (device p) \<and>
           reads_managed_group (Changes v) \<and> reads_unmanaged_group (Changes v)"
proof -
  obtain x1 s1 where d1: "device_reference ip rs p s = (x1, s1)"
    by (cases "device_reference ip rs p s")
  show ?thesis
  proof (cases x1)
    case (Inl e)
    with d1 assms(3) show ?thesis
      by (simp add: set_changed_options_def io_bind_def)
  next
    case (Inr r1)
    with d1 device_reference_managed[OF assms(1), of ip rs s r1 s1] obtain f1 where
      r1: "r1 = Some f1" by auto
    obtain x2 s2 where d2: "device_reference ip rs p s1 = (x2, s2)"
      by (cases "device_reference ip rs p s1")
    show ?thesis
    proof (cases x2)
      case (Inl e)
      with d1 d2 Inr r1 assms(3) show ?thesis
        by (simp add: set_changed_options_def io_bind_def)
    next
      case r2: (Inr r2)
      with d2 device_reference_managed[OF assms(1), of ip rs s1 r2 s2] obtain f2 where
        f2: "r2 = Some f2" by auto
      have n: "\<lparr> v_device_address = Some (device p), v_device_reference = Some f2,
           v_device_username = device_username p, v_device_password = device_password p,
           v_device_port = device_port p, v_managed = managed p,
           v_unit_of_measure = unit_of_measure p \<rparr> \<noteq> no_values"
        by (simp add: no_values_def)
      from d1 d2 Inr r1 r2 f2 assms(2,3) n show ?thesis
        by (auto simp: set_changed_options_def io_bind_def Let_def device_address_def
            reads_managed_group_def reads_unmanaged_group_def)
    qed
  qed
qed

text \<open>
  Claim C8 does not hold of the change sets that are sent to the API. The properties of
  \<^verbatim>\<open>UsableChanges\<close> would blank the fields of the other group out, but
  \<^verbatim>\<open>_set_changed_options\<close> stores a plain \<^verbatim>\<open>Changes\<close>, and it is on this object that
  \<^verbatim>\<open>create_on_device\<close> calls \<^verbatim>\<open>api_params\<close>. In the run below, for a managed device given
  by its address, the body of the \<^verbatim>\<open>POST\<close>, the sixth request, is what \<^verbatim>\<open>api_params\<close>
  makes of a \<^verbatim>\<open>Changes\<close> that reads both groups: the reference of the device, and its
  address, port, user name and password. The run returns \<^verbatim>\<open>changed=True\<close> and reports all
  of them. The same values in a \<^verbatim>\<open>UsableChanges\<close> read the managed group only.
\<close>

theorem managed_address_sends_both_groups:
  "truthy (managed (managed_device ''present'')) \<and>
   map_option (map verb \<circ> requests \<circ> snd)
     (exec_module sample_ip ap managed_licensing False (managed_device ''present'')
        init_manager) =
     Some [GET, GET, GET, GET, GET, POST, GET, GET, GET, GET, GET, GET, GET, GET, GET, GET,
           GET, GET] \<and>
   map_option (map data \<circ> filter (\<lambda>q. verb q = POST) \<circ> requests \<circ> snd)
     (exec_module sample_ip ap managed_licensing False (managed_device ''present'')
        init_manager) =
     Some [Some (ap (Changes both_groups))] \<and>
   map_option fst
     (exec_module sample_ip ap managed_licensing False (managed_device ''present'')
        init_manager) =
     Some (Inr \<lparr> reported = both_groups, changed = True \<rparr>) \<and>
   reads_managed_group (Changes both_groups) \<and>
   reads_unmanaged_group (Changes both_groups) \<and>
   reads_managed_group (UsableChanges both_groups) \<and>
   \<not> reads_unmanaged_group (UsableChanges both_groups)"
proof -
  let ?p = "managed_device ''present''"
  let ?rs = "managed_licensing"
  let ?get = "\<lparr>verb = GET, uri = sample_member_uri, data = None\<rparr>"
  define s1 where "s1 = snd (exists sample_ip ?rs ?p init_manager)"
  define s2 where "s2 = snd (set_changed_options sample_ip ?rs ?p s1)"
  define s3 where "s3 = snd (create_on_device ap ?rs ?p s2)"
  define s4 where "s4 = snd (exists sample_ip ?rs ?p s3)"
  define s5 where "s5 = snd (member_uri sample_ip ?rs ?p s4)"
  define s6 where "s6 = s5\<lparr>requests := requests s5 @ [?get, ?get, ?get]\<rparr>"
  have m: "truthy (managed ?p)" by code_simp
  have st: "state ?p = ''present''" by code_simp
  have f1: "exists sample_ip ?rs ?p init_manager = (Inr False, s1)"
    unfolding s1_def by code_simp
  have f2: "set_changed_options sample_ip ?rs ?p s1 = (Inr (), s2)"
    unfolding s2_def s1_def by code_simp
  have f3: "create_on_device ap ?rs ?p s2 = (Inr True, s3)"
    unfolding s3_def s2_def s1_def by code_simp
  have f4: "exists sample_ip ?rs ?p s3 = (Inr True, s4)"
    unfolding s4_def s3_def s2_def s1_def by code_simp
  have f5: "member_uri sample_ip ?rs ?p s4 = (Inr sample_member_uri, s5)"
    unfolding s5_def s4_def s3_def s2_def s1_def by code_simp
  have len: "length (requests s5) = 15"
    unfolding s5_def s4_def s3_def s2_def s1_def by code_simp
  have polls: "?rs 15 = member_status 200 ''LICENSED''" "?rs 16 = member_status 200 ''LICENSED''"
    "?rs 17 = member_status 200 ''LICENSED''"
    by code_simp+
  have ok: "\<not> bad_code (member_status 200 ''LICENSED'')"
    "getitem (contents (member_status 200 ''LICENSED'')) ''status'' = Inr (JStr ''LICENSED'')"
    by code_simp+
  have f6: "wait_loop ?rs sample_member_uri 0 s5 = Some (Inr (), s6)"
    unfolding s6_def
    by (simp add: wait_loop.simps client_get_def client_call_def len polls ok)
  have run: "exec_module sample_ip ap ?rs False ?p init_manager =
      Some (Inr \<lparr> reported = to_return (Changes (to_return (changes s6))), changed = True \<rparr>, s6)"
    using m
    by (simp add: exec_module_def present_def create_def wait_for_device_to_be_licensed_def
        run_bind_def st f1 f2 f3 f4 f5 f6)
  have c: "changes s6 = Changes both_groups"
    unfolding s6_def s5_def s4_def s3_def s2_def s1_def by code_simp
  have v: "map verb (requests s5) =
      [GET, GET, GET, GET, GET, POST, GET, GET, GET, GET, GET, GET, GET, GET, GET]"
    unfolding s5_def s4_def s3_def s2_def s1_def by code_simp
  have d: "map data (filter (\<lambda>q. verb q = POST) (requests s5)) =
      [Some (ap (Changes both_groups))]"
    unfolding s5_def s4_def s3_def s2_def s1_def by code_simp
  have g: "reads_managed_group (Changes both_groups)"
    "reads_unmanaged_group (Changes both_groups)"
    "reads_managed_group (UsableChanges both_groups)"
    "\<not> reads_unmanaged_group (UsableChanges both_groups)"
    by code_simp+
  from v have v6: "map verb (requests s6) =
      [GET, GET, GET, GET, GET, POST, GET, GET, GET, GET, GET, GET, GET, GET, GET, GET,
       GET, GET]"
    by (simp add: s6_def)
  from d have d6: "map data (filter (\<lambda>q. verb q = POST) (requests s6)) =
      [Some (ap (Changes both_groups))]"
    by (simp add: s6_def)
  show ?thesis
    using m g by (simp add: run c v6 d6)
qed

text \<open>
  The theorem at one \<^verbatim>\<open>api_params\<close>: the body of the \<^verbatim>\<open>POST\<close> is made from a \<^verbatim>\<open>Changes\<close>
  that reads both groups.
\<close>

theorem managed_address_sends_both_groups_witness:
  "map_option (map data \<circ> filter (\<lambda>q. verb q = POST) \<circ> requests \<circ> snd)
     (exec_module sample_ip sample_api_params managed_licensing False
        (managed_device ''present'') init_manager) =
     Some [Some (sample_api_params (Changes both_groups))] \<and>
   reads_managed_group (Changes both_groups) \<and>
   reads_unmanaged_group (Changes both_groups)"
  using managed_address_sends_both_groups[of sample_api_params] by blast

subsection \<open>No offering of that name\<close>

lemma offering_id_none:
  assumes "no_items (rs (length (requests s))) = Inr True"
  shows "\<exists>s'. offering_id rs p s =
           (Inl (F5ModuleError (Lit ''No offering with the specified name was found.'')), s') \<and>
           only_gets s s' \<and> length (requests s') = Suc (length (requests s))"
proof -
  obtain r s' where o: "offering_id rs p s = (r, s')" by (cases "offering_id rs p s")
  have "only_gets s (snd (offering_id rs p s))"
    using io_gets_offering_id[of rs p] by (simp add: io_gets_def)
  with o have g: "only_gets s s'" by simp
  have "fst (offering_id rs p s) =
      Inl (F5ModuleError (Lit ''No offering with the specified name was found.''))"
    using assms no_items_True_code[OF assms]
    by (simp add: offering_id_def io_bind_def client_get_def client_call_def)
  with o g offering_id_length[OF o] show ?thesis by simp
qed

text \<open>
  Claim C9. When the filtered query for the offering is answered by code 200 with
  \<^verbatim>\<open>totalItems == 0\<close>, \<^verbatim>\<open>offering_id\<close> raises \<^verbatim>\<open>F5ModuleError\<close> with the message
  "No offering with the specified name was found.", and so does every method that reads
  it at that point: \<^verbatim>\<open>member_id\<close>, \<^verbatim>\<open>exists\<close>, \<^verbatim>\<open>create_on_device\<close>. That query is the first
  request of every run with \<^verbatim>\<open>state=present\<close> or \<^verbatim>\<open>state=absent\<close>: the run then fails with
  this error after that single \<^verbatim>\<open>GET\<close>.
\<close>

theorem no_offering_fails:
  assumes "no_items (rs (length (requests s))) = Inr True"
  shows
    "fst (offering_id rs p s) =
       Inl (F5ModuleError (Lit ''No offering with the specified name was found.'')) \<and>
     fst (member_id ip rs p s) =
       Inl (F5ModuleError (Lit ''No offering with the specified name was found.'')) \<and>
     fst (exists ip rs p s) =
       Inl (F5ModuleError (Lit ''No offering with the specified name was found.'')) \<and>
     fst (create_on_device ap rs p s) =
       Inl (F5ModuleError (Lit ''No offering with the specified name was found.'')) \<and>
     (state p = ''present'' \<or> state p = ''absent'' \<longrightarrow>
        (\<exists>s'. exec_module ip ap rs check_mode p s =
           Some (Inl (F5ModuleError (Lit ''No offering with the specified name was found.'')), s') \<and>
           only_gets s s' \<and> length (requests s') = Suc (length (requests s))))"
proof -
  let ?e = "F5ModuleError (Lit ''No offering with the specified name was found.'')"
  obtain s' where o: "offering_id rs p s = (Inl ?e, s')" and g: "only_gets s s'"
    and l: "length (requests s') = Suc (length (requests s))"
    using offering_id_none[where rs = rs and s = s and p = p, OF assms] by blast
  have m: "member_id ip rs p s = (Inl ?e, s')"
    by (rule member_id_fails[OF o])
  then have x: "exists ip rs p s = (Inl ?e, s')"
    by (simp add: exists_def io_bind_def)
  have c: "fst (create_on_device ap rs p s) = Inl ?e"
    using o by (simp add: create_on_device_def io_bind_def Let_def)
  have "state p = ''present'' \<or> state p = ''absent'' \<longrightarrow>
        (\<exists>s'. exec_module ip ap rs check_mode p s = Some (Inl ?e, s') \<and>
           only_gets s s' \<and> length (requests s') = Suc (length (requests s)))"
    using exec_module_exists_raises[OF _ x, of ap check_mode] g l by blast
  with o m x c show ?thesis by simp
qed

theorem no_offering_fails_witness:
  "\<exists>s'. exec_module sample_ip sample_api_params (script [] nothing_found) False
      (unmanaged_device ''present'') init_manager =
    Some (Inl (F5ModuleError (Lit ''No offering with the specified name was found.'')), s') \<and>
    only_gets init_manager s' \<and> length (requests s') = Suc (length (requests init_manager))"
proof -
  let ?p = "unmanaged_device ''present''"
  let ?rs = "script [] nothing_found"
  have a: "no_items (?rs (length (requests init_manager))) = Inr True"
    by code_simp
  have st: "state ?p = ''present''"
    by code_simp
  from no_offering_fails[where rs = ?rs and s = init_manager and p = ?p and ip = sample_ip
      and ap = sample_api_params and check_mode = False, OF a] st
  show ?thesis by blast
qed

subsection \<open>The classification of the device\<close>

lemma device_reference_not_unknown:
  "fst (device_reference ip rs p s) \<noteq> Inl (unknown_device_format p)"
  by (auto dest: no_items_not_F5 first_item_not_F5
      simp: device_reference_def io_bind_def unknown_device_format_def client_get_def
        client_call_def device_is_name_def
      split: prod.splits sum.splits if_splits)

lemma member_id_not_unknown:
  "fst (member_id ip rs p s) \<noteq> Inl (unknown_device_format p)"
proof (cases "offering_id rs p s")
  case (Pair r s1)
  show ?thesis
  proof (cases r)
    case (Inl e)
    with Pair member_id_fails[of rs p s e s1 ip] offering_id_not_unknown[of rs p s]
    show ?thesis by simp
  next
    case (Inr oid)
    with Pair have "offering_id rs p s = (Inr oid, s1)" by simp
    from member_id_step[OF this, of ip] show ?thesis
      by (auto dest: no_items_not_F5 first_item_not_F5 simp: unknown_device_format_def
          split: sum.splits if_splits)
  qed
qed

text \<open>
  Claim C10. Every device string falls in one of the three classes, and
  \<^verbatim>\<open>device_is_name\<close> holds exactly when neither \<^verbatim>\<open>device_is_address\<close> nor \<^verbatim>\<open>device_is_id\<close>
  does; so \<^verbatim>\<open>device_reference\<close> and \<^verbatim>\<open>member_id\<close> never raise "Unknown device format",
  whatever the device answers. Exactly one class holds as soon as \<^verbatim>\<open>is_valid_ip\<close> accepts
  no string that starts with eight characters of \<^verbatim>\<open>[A-Za-z0-9]\<close>, which is so for the
  addresses of IPv4 (at most three digits before the first dot) and of IPv6 (at most four
  digits before the first colon).
\<close>

theorem device_classification_total:
  "(device_is_address ip p \<or> device_is_id p \<or> device_is_name ip p) \<and>
   (device_is_name ip p \<longleftrightarrow> \<not> device_is_address ip p \<and> \<not> device_is_id p) \<and>
   ((\<forall>s. ip s \<longrightarrow> alnums 8 s = None) \<longrightarrow>
      (device_is_address ip p \<and> \<not> device_is_id p \<and> \<not> device_is_name ip p) \<or>
      (\<not> device_is_address ip p \<and> device_is_id p \<and> \<not> device_is_name ip p) \<or>
      (\<not> device_is_address ip p \<and> \<not> device_is_id p \<and> device_is_name ip p)) \<and>
   fst (device_reference ip rs p s) \<noteq> Inl (unknown_device_format p) \<and>
   fst (member_id ip rs p s) \<noteq> Inl (unknown_device_format p)"
proof -
  have a: "device_is_name ip p \<longleftrightarrow> \<not> device_is_address ip p \<and> \<not> device_is_id p"
    by (simp add: device_is_name_def)
  have b: "(\<forall>s. ip s \<longrightarrow> alnums 8 s = None) \<longrightarrow>
      \<not> (device_is_address ip p \<and> device_is_id p)"
    using re_match_id_alnums by (auto simp: device_is_address_def device_is_id_def)
  from a b device_reference_not_unknown[of ip rs p s] member_id_not_unknown[of ip rs p s]
  show ?thesis by blast
qed

text \<open>
  The theorem at the three devices of the module's documentation: an address, a host
  name and a UUID.
\<close>

theorem device_classification_total_witness:
  "alnums 8 ''1.1.1.1'' = None \<and>
   device_is_address sample_ip (unmanaged_device ''present'') \<and>
   \<not> device_is_id (unmanaged_device ''present'') \<and>
   \<not> device_is_name sample_ip (unmanaged_device ''present'') \<and>
   device_is_name sample_ip ((unmanaged_device ''present'')\<lparr>device := ''bigi1.foo.com''\<rparr>) \<and>
   \<not> device_is_address sample_ip ((unmanaged_device ''present'')\<lparr>device := ''bigi1.foo.com''\<rparr>) \<and>
   \<not> device_is_id ((unmanaged_device ''present'')\<lparr>device := ''bigi1.foo.com''\<rparr>) \<and>
   device_is_id ((unmanaged_device ''present'')
      \<lparr>device := ''7141a063-7cf8-423f-9829-9d40599fa3e0''\<rparr>) \<and>
   \<not> device_is_address sample_ip ((unmanaged_device ''present'')
      \<lparr>device := ''7141a063-7cf8-423f-9829-9d40599fa3e0''\<rparr>) \<and>
   \<not> device_is_name sample_ip ((unmanaged_device ''present'')
      \<lparr>device := ''7141a063-7cf8-423f-9829-9d40599fa3e0''\<rparr>)"
proof -
  have h0: "alnums 8 ''1.1.1.1'' = None" by code_simp
  then have h: "\<forall>s. sample_ip s \<longrightarrow> alnums 8 s = None"
    by (simp add: sample_ip_def)
  let ?p1 = "unmanaged_device ''present''"
  let ?p2 = "(unmanaged_device ''present'')\<lparr>device := ''bigi1.foo.com''\<rparr>"
  let ?p3 = "(unmanaged_device ''present'')\<lparr>device := ''7141a063-7cf8-423f-9829-9d40599fa3e0''\<rparr>"
  have 1: "device_is_address sample_ip ?p1" by code_simp
  have 2: "\<not> device_is_address sample_ip ?p2" "\<not> device_is_id ?p2" by code_simp+
  have 3: "device_is_id ?p3" by code_simp
  from h0 h 1 2 3
    device_classification_total[of sample_ip ?p1]
    device_classification_total[of sample_ip ?p2]
    device_classification_total[of sample_ip ?p3]
  show ?thesis by blast
qed

end
